theory Spec2Isabelle
  imports Complex_Main "HOL-Library.Log_Nat"
begin

section \<open>Python and numpy primitives used by the dataset pipeline\<close>

text \<open>
  The exceptions the modelled code can raise.  A computation that may raise has the
  result type \<open>error + 'a\<close>, with \<open>Inl\<close> carrying the exception.
\<close>

datatype error =
  ValueError | IndexError | KeyError | ZeroDivisionError | AttributeError | RuntimeError

text \<open>Running a fallible step on every element of a list, stopping at the first exception.\<close>

fun mapM :: "('a \<Rightarrow> error + 'b) \<Rightarrow> 'a list \<Rightarrow> error + 'b list" where
  "mapM f [] = Inr []"
| "mapM f (x # xs) =
     (case f x of
        Inl e \<Rightarrow> Inl e
      | Inr y \<Rightarrow> (case mapM f xs of Inl e \<Rightarrow> Inl e | Inr ys \<Rightarrow> Inr (y # ys)))"

text \<open>\<^verbatim>\<open>np.arange(a, b, 1)\<close> on integers: \<open>a, a + 1, ..., b - 1\<close>, empty when \<open>b \<le> a\<close>.\<close>

definition np_arange :: "int \<Rightarrow> int \<Rightarrow> int list" where
  "np_arange a b = [a..b - 1]"

text \<open>\<^verbatim>\<open>range(a, b)\<close> as the list of integers it yields (empty when \<open>b \<le> a\<close>).\<close>

definition py_range :: "int \<Rightarrow> int \<Rightarrow> int list" where
  "py_range a b = [a..b - 1]"

text \<open>The builtins \<^verbatim>\<open>min\<close> and \<^verbatim>\<open>max\<close> on a sequence: \<^verbatim>\<open>ValueError\<close> on an empty one.\<close>

definition py_min :: "'a::linorder list \<Rightarrow> error + 'a" where
  "py_min xs = (case xs of [] \<Rightarrow> Inl ValueError | x # ys \<Rightarrow> Inr (fold min ys x))"

definition py_max :: "'a::linorder list \<Rightarrow> error + 'a" where
  "py_max xs = (case xs of [] \<Rightarrow> Inl ValueError | x # ys \<Rightarrow> Inr (fold max ys x))"

text \<open>
  Indexing the leading axis of an array of length \<open>n\<close> with an integer: a negative index
  counts from the end, and an index outside \<open>-n .. n - 1\<close> raises \<^verbatim>\<open>IndexError\<close>.
\<close>

definition np_get :: "'a list \<Rightarrow> int \<Rightarrow> error + 'a" where
  "np_get xs i =
     (if 0 \<le> i \<and> i < int (length xs) then Inr (xs ! nat i)
      else if i < 0 \<and> - int (length xs) \<le> i then Inr (xs ! nat (int (length xs) + i))
      else Inl IndexError)"

text \<open>\<^verbatim>\<open>df[idx, ...]\<close> with an integer index array: the frames at those indices, in order.\<close>

definition np_take :: "'a list \<Rightarrow> int list \<Rightarrow> error + 'a list" where
  "np_take xs idx = mapM (np_get xs) idx"

text \<open>\<^verbatim>\<open>np.stack(xs, axis=0)\<close> of equally shaped arrays: \<^verbatim>\<open>ValueError\<close> on an empty list.\<close>

definition np_stack :: "'a list \<Rightarrow> error + 'a list" where
  "np_stack xs = (if xs = [] then Inl ValueError else Inr xs)"

text \<open>
  A slice bound \<open>i\<close> on a sequence of length \<open>n\<close>: a negative bound counts from the
  end, and every bound is clamped into \<open>0 .. n\<close>.  \<open>py_slice start stop xs\<close> is
  \<^verbatim>\<open>xs[start:stop]\<close>, with \<open>None\<close> for an omitted bound; slicing never raises.
\<close>

definition slice_index :: "nat \<Rightarrow> int \<Rightarrow> nat" where
  "slice_index n i = (if i < 0 then nat (max 0 (int n + i)) else min (nat i) n)"

definition py_slice :: "int option \<Rightarrow> int option \<Rightarrow> 'a list \<Rightarrow> 'a list" where
  "py_slice start stop xs =
     (let n = length xs;
          a = (case start of None \<Rightarrow> 0 | Some i \<Rightarrow> slice_index n i);
          b = (case stop of None \<Rightarrow> n | Some j \<Rightarrow> slice_index n j)
      in take (b - a) (drop a xs))"

text \<open>
  The builtin \<^verbatim>\<open>round\<close> with one argument, on the real number a float denotes: the
  nearest integer, a tie going to the even neighbour.
\<close>

definition py_round :: "real \<Rightarrow> int" where
  "py_round x =
     (let f = \<lfloor>x\<rfloor>; d = x - of_int f
      in if d < 1 / 2 then f else if 1 / 2 < d then f + 1 else if even f then f else f + 1)"

text \<open>
  The result of an arithmetic operation on Python floats (IEEE 754 doubles) is the exact
  result rounded to the nearest double, a tie going to the even significand.  For
  \<open>x > 0\<close>, \<open>double_exponent x\<close> is the \<open>e\<close> with \<open>2\<^sup>e \<le> x < 2\<^sup>e\<^sup>+\<^sup>1\<close>; the doubles of
  that binade are the multiples of \<open>2\<^sup>e\<^sup>-\<^sup>5\<^sup>2\<close>, and below \<open>2\<^sup>-\<^sup>1\<^sup>0\<^sup>2\<^sup>2\<close> the spacing stays
  \<open>2\<^sup>-\<^sup>1\<^sup>0\<^sup>7\<^sup>4\<close>.  \<open>fl x\<close> is \<open>x\<close> rounded to a double.  Overflow to infinity (results
  beyond about \<open>1.8 \<times> 10\<^sup>3\<^sup>0\<^sup>8\<close>) is not modelled.
\<close>

definition double_exponent :: "real \<Rightarrow> int" where
  "double_exponent x =
     (if 1 \<le> x then int (floorlog 2 (nat \<lfloor>x\<rfloor>)) - 1
      else - int (floorlog 2 (nat (\<lceil>1 / x\<rceil> - 1))))"

definition fl :: "real \<Rightarrow> real" where
  "fl x =
     (if x = 0 then 0
      else (let e = max (double_exponent \<bar>x\<bar>) (- 1022); ulp = 2 powi (e - 52)
            in of_int (py_round (x / ulp)) * ulp))"

section \<open>Floating-point values\<close>

text \<open>
  A numpy float is modelled as the real number it denotes or one of the three special
  values of IEEE 754; the operations below are exact on finite operands and follow
  IEEE 754 on the special ones (zero is unsigned and counts as positive zero).
  Overflow and rounding of finite results are not modelled.
\<close>

datatype npfloat = Fin real | PInf | NInf | NaN

definition np_isinf :: "npfloat \<Rightarrow> bool" where
  "np_isinf v = (v = PInf \<or> v = NInf)"

fun fneg :: "npfloat \<Rightarrow> npfloat" where
  "fneg (Fin a) = Fin (- a)"
| "fneg PInf = NInf"
| "fneg NInf = PInf"
| "fneg NaN = NaN"

fun fadd :: "npfloat \<Rightarrow> npfloat \<Rightarrow> npfloat" where
  "fadd NaN _ = NaN"
| "fadd _ NaN = NaN"
| "fadd (Fin a) (Fin b) = Fin (a + b)"
| "fadd PInf NInf = NaN"
| "fadd NInf PInf = NaN"
| "fadd PInf _ = PInf"
| "fadd _ PInf = PInf"
| "fadd NInf _ = NInf"
| "fadd _ NInf = NInf"

definition fsub :: "npfloat \<Rightarrow> npfloat \<Rightarrow> npfloat" where
  "fsub x y = fadd x (fneg y)"

text \<open>The sign of an infinite result of a product or quotient: positive iff the signs agree.\<close>

definition signed_inf :: "bool \<Rightarrow> npfloat" where
  "signed_inf positive = (if positive then PInf else NInf)"

fun fmul :: "npfloat \<Rightarrow> npfloat \<Rightarrow> npfloat" where
  "fmul NaN _ = NaN"
| "fmul _ NaN = NaN"
| "fmul (Fin a) (Fin b) = Fin (a * b)"
| "fmul (Fin a) PInf = (if a = 0 then NaN else signed_inf (0 < a))"
| "fmul (Fin a) NInf = (if a = 0 then NaN else signed_inf (a < 0))"
| "fmul PInf (Fin b) = (if b = 0 then NaN else signed_inf (0 < b))"
| "fmul NInf (Fin b) = (if b = 0 then NaN else signed_inf (b < 0))"
| "fmul PInf PInf = PInf"
| "fmul PInf NInf = NInf"
| "fmul NInf PInf = NInf"
| "fmul NInf NInf = PInf"

fun fdiv :: "npfloat \<Rightarrow> npfloat \<Rightarrow> npfloat" where
  "fdiv NaN _ = NaN"
| "fdiv _ NaN = NaN"
| "fdiv (Fin a) (Fin b) =
     (if b = 0 then (if a = 0 then NaN else signed_inf (0 < a)) else Fin (a / b))"
| "fdiv (Fin a) PInf = Fin 0"
| "fdiv (Fin a) NInf = Fin 0"
| "fdiv PInf (Fin b) = signed_inf (0 \<le> b)"
| "fdiv NInf (Fin b) = signed_inf (b < 0)"
| "fdiv PInf PInf = NaN"
| "fdiv PInf NInf = NaN"
| "fdiv NInf PInf = NaN"
| "fdiv NInf NInf = NaN"

fun fsquare :: "npfloat \<Rightarrow> npfloat" where
  "fsquare (Fin a) = Fin (a\<^sup>2)"
| "fsquare PInf = PInf"
| "fsquare NInf = PInf"
| "fsquare NaN = NaN"

fun fexp :: "npfloat \<Rightarrow> npfloat" where
  "fexp (Fin a) = Fin (exp a)"
| "fexp PInf = PInf"
| "fexp NInf = Fin 0"
| "fexp NaN = NaN"

text \<open>The comparison \<^verbatim>\<open>x < y\<close>: false whenever an operand is NaN.\<close>

fun flt :: "npfloat \<Rightarrow> npfloat \<Rightarrow> bool" where
  "flt NaN _ = False"
| "flt _ NaN = False"
| "flt (Fin a) (Fin b) = (a < b)"
| "flt NInf NInf = False"
| "flt NInf _ = True"
| "flt _ NInf = False"
| "flt PInf _ = False"
| "flt _ PInf = True"

fun is_fin :: "npfloat \<Rightarrow> bool" where
  "is_fin (Fin a) = True"
| "is_fin _ = False"

fun the_fin :: "npfloat \<Rightarrow> real" where
  "the_fin (Fin a) = a"
| "the_fin _ = 0"

fun fsqrt :: "npfloat \<Rightarrow> npfloat" where
  "fsqrt (Fin a) = (if a < 0 then NaN else Fin (sqrt a))"
| "fsqrt PInf = PInf"
| "fsqrt NInf = NaN"
| "fsqrt NaN = NaN"

text \<open>
  The reductions \<^verbatim>\<open>.sum()\<close>, \<^verbatim>\<open>.mean()\<close> and \<^verbatim>\<open>.std()\<close> over all elements of an
  array, given flattened.  The mean is the sum divided by the number of elements, so it
  is NaN (\<open>0 / 0\<close>) on an empty array.  The standard deviation is the population one
  (\<^verbatim>\<open>ddof = 0\<close>): the root of the mean squared deviation from the mean.
\<close>

definition np_sum :: "npfloat list \<Rightarrow> npfloat" where
  "np_sum xs = fold (\<lambda>x acc. fadd acc x) xs (Fin 0)"

definition np_mean :: "npfloat list \<Rightarrow> npfloat" where
  "np_mean xs = fdiv (np_sum xs) (Fin (real (length xs)))"

definition np_std :: "npfloat list \<Rightarrow> npfloat" where
  "np_std xs = fsqrt (np_mean (map (\<lambda>x. fsquare (fsub x (np_mean xs))) xs))"



text \<open>
  The reductions \<^verbatim>\<open>.max()\<close> and \<^verbatim>\<open>.min()\<close> over all elements: \<^verbatim>\<open>ValueError\<close> on an
  empty array, NaN as soon as one element is NaN.
\<close>

definition np_max :: "npfloat list \<Rightarrow> error + npfloat" where
  "np_max xs =
     (case xs of
        [] \<Rightarrow> Inl ValueError
      | x # ys \<Rightarrow> Inr (if NaN \<in> set xs then NaN else fold (\<lambda>v acc. if flt acc v then v else acc) ys x))"

definition np_min :: "npfloat list \<Rightarrow> error + npfloat" where
  "np_min xs =
     (case xs of
        [] \<Rightarrow> Inl ValueError
      | x # ys \<Rightarrow> Inr (if NaN \<in> set xs then NaN else fold (\<lambda>v acc. if flt v acc then v else acc) ys x))"

text \<open>
  The builtins \<^verbatim>\<open>max(a, b, ...)\<close> and \<^verbatim>\<open>min(a, b, ...)\<close> on floats: the first argument is
  kept until a later one compares strictly greater (smaller), so a NaN is kept when it
  comes first and skipped otherwise.
\<close>

definition py_fmax :: "npfloat list \<Rightarrow> error + npfloat" where
  "py_fmax xs =
     (case xs of
        [] \<Rightarrow> Inl ValueError
      | x # ys \<Rightarrow> Inr (fold (\<lambda>v acc. if flt acc v then v else acc) ys x))"

definition py_fmin :: "npfloat list \<Rightarrow> error + npfloat" where
  "py_fmin xs =
     (case xs of
        [] \<Rightarrow> Inl ValueError
      | x # ys \<Rightarrow> Inr (fold (\<lambda>v acc. if flt v acc then v else acc) ys x))"

section \<open>Window generator\<close>

text \<open>
  \<^verbatim>\<open>TrafficSpeedDataset._generate_input_data\<close>.  The tensor \<open>df\<close> is time-major: a list
  of frames, one per timestep (a frame is the \<open>num_nodes \<times> feature_dim\<close> matrix of that
  step and is left abstract).  One iteration of the loop reads the frames at
  \<open>t + x_offsets\<close> and at \<open>t + y_offsets\<close>.
\<close>

definition window_at :: "'a list \<Rightarrow> int list \<Rightarrow> int list \<Rightarrow> int \<Rightarrow> error + ('a list \<times> 'a list)" where
  "window_at df x_offsets y_offsets t =
     (case np_take df (map (\<lambda>off. t + off) x_offsets) of
        Inl e \<Rightarrow> Inl e
      | Inr x_t \<Rightarrow>
          (case np_take df (map (\<lambda>off. t + off) y_offsets) of
             Inl e \<Rightarrow> Inl e
           | Inr y_t \<Rightarrow> Inr (x_t, y_t)))"

definition generate_input_data ::
    "int \<Rightarrow> int \<Rightarrow> 'a list \<Rightarrow> error + ('a list list \<times> 'a list list)" where
  "generate_input_data input_window output_window df =
     (let num_samples = int (length df);
          x_offsets = sort (np_arange (- input_window + 1) 1);
          y_offsets = sort (np_arange 1 (output_window + 1))
      in case py_min x_offsets of
           Inl e \<Rightarrow> Inl e
         | Inr mn \<Rightarrow>
             (case py_max y_offsets of
                Inl e \<Rightarrow> Inl e
              | Inr mx \<Rightarrow>
                  (let min_t = \<bar>mn\<bar>;
                       max_t = \<bar>num_samples - \<bar>mx\<bar>\<bar>
                   in case mapM (window_at df x_offsets y_offsets) (py_range min_t max_t) of
                        Inl e \<Rightarrow> Inl e
                      | Inr xy \<Rightarrow>
                          (case np_stack (map fst xy) of
                             Inl e \<Rightarrow> Inl e
                           | Inr x \<Rightarrow>
                               (case np_stack (map snd xy) of
                                  Inl e \<Rightarrow> Inl e
                                | Inr y \<Rightarrow> Inr (x, y))))))"

section \<open>Chronological split\<close>

text \<open>The six arrays \<^verbatim>\<open>_generate_train_val_test\<close> returns; each is a list of samples.\<close>

record 'a partitions =
  x_train :: "'a list"
  y_train :: "'a list"
  x_val :: "'a list"
  y_val :: "'a list"
  x_test :: "'a list"
  y_test :: "'a list"

text \<open>
  Lines 216--227 of \<^verbatim>\<open>_generate_train_val_test\<close>: the three counts and the six slices
  \<^verbatim>\<open>x[:num_train]\<close>, \<^verbatim>\<open>x[num_train: num_train + num_val]\<close> and \<^verbatim>\<open>x[-num_test:]\<close>.  The two
  rates are doubles; \<^verbatim>\<open>1 - train_rate - eval_rate\<close> is two rounded subtractions, and each
  product is the rounded product of the sample count, converted to a double, with a rate.
\<close>

definition num_test_of :: "real \<Rightarrow> real \<Rightarrow> nat \<Rightarrow> int" where
  "num_test_of train_rate eval_rate n =
     (let test_rate = fl (fl (1 - train_rate) - eval_rate)
      in py_round (fl (fl (real n) * test_rate)))"

definition num_train_of :: "real \<Rightarrow> nat \<Rightarrow> int" where
  "num_train_of train_rate n = py_round (fl (fl (real n) * train_rate))"

definition num_val_of :: "real \<Rightarrow> real \<Rightarrow> nat \<Rightarrow> int" where
  "num_val_of train_rate eval_rate n =
     int n - num_test_of train_rate eval_rate n - num_train_of train_rate n"

definition split_train_val_test :: "real \<Rightarrow> real \<Rightarrow> 'a list \<Rightarrow> 'a list \<Rightarrow> 'a partitions" where
  "split_train_val_test train_rate eval_rate x y =
     (let num_samples = length x;
          num_test = num_test_of train_rate eval_rate num_samples;
          num_train = num_train_of train_rate num_samples;
          num_val = num_val_of train_rate eval_rate num_samples
      in \<lparr>x_train = py_slice None (Some num_train) x,
          y_train = py_slice None (Some num_train) y,
          x_val = py_slice (Some num_train) (Some (num_train + num_val)) x,
          y_val = py_slice (Some num_train) (Some (num_train + num_val)) y,
          x_test = py_slice (Some (- num_test)) None x,
          y_test = py_slice (Some (- num_test)) None y\<rparr>)"

section \<open>Relation table and adjacency weighting\<close>

text \<open>
  \<^verbatim>\<open>_load_geo\<close>: the dense index of every entity identifier, built by enumerating
  \<^verbatim>\<open>geo_ids\<close> (a repeated identifier keeps its last index).
\<close>

definition geo_to_ind :: "'id list \<Rightarrow> ('id \<rightharpoonup> nat)" where
  "geo_to_ind geo_ids = fold (\<lambda>(index, id) m. m(id \<mapsto> index)) (enumerate 0 geo_ids) Map.empty"

text \<open>
  One iteration of the loop of \<^verbatim>\<open>_load_rel\<close> over the rows
  \<open>(origin_id, destination_id, weight)\<close> of \<^verbatim>\<open>distance_df.values\<close>.
\<close>

definition rel_row ::
    "('id \<rightharpoonup> nat) \<Rightarrow> 'id \<times> 'id \<times> npfloat \<Rightarrow> npfloat list list \<Rightarrow> npfloat list list" where
  "rel_row g row adj_mx =
     (case row of (origin_id, destination_id, w) \<Rightarrow>
        (case g origin_id of
           None \<Rightarrow> adj_mx
         | Some i \<Rightarrow>
             (case g destination_id of
                None \<Rightarrow> adj_mx
              | Some j \<Rightarrow> adj_mx[i := (adj_mx ! i)[j := w]])))"

text \<open>\<^verbatim>\<open>_calculate_adjacency_matrix\<close>, as a function of the matrix and \<^verbatim>\<open>adj_epsilon\<close>.\<close>

definition calculate_adjacency_matrix :: "real \<Rightarrow> npfloat list list \<Rightarrow> npfloat list list" where
  "calculate_adjacency_matrix adj_epsilon adj_mx =
     (let distances = filter (\<lambda>v. \<not> np_isinf v) (concat adj_mx);
          std = np_std distances;
          weights = map (map (\<lambda>v. fexp (fneg (fsquare (fdiv v std))))) adj_mx
      in map (map (\<lambda>w. if flt w (Fin adj_epsilon) then Fin 0 else w)) weights)"

text \<open>
  \<^verbatim>\<open>_load_rel\<close> from line 92 on: the matrix filled with the sentinel, the loop over the
  rows, and the optional weighting.
\<close>

definition load_rel ::
    "bool \<Rightarrow> real \<Rightarrow> 'id list \<Rightarrow> ('id \<times> 'id \<times> npfloat) list \<Rightarrow> npfloat list list" where
  "load_rel calculate_weight adj_epsilon geo_ids distance_rows =
     (let n = length geo_ids;
          adj_mx = fold (rel_row (geo_to_ind geo_ids)) distance_rows (replicate n (replicate n PInf))
      in if calculate_weight then calculate_adjacency_matrix adj_epsilon adj_mx else adj_mx)"

section \<open>Scaler\<close>

text \<open>
  The scaler objects, each holding the statistics it is constructed from:
  \<open>NormalScaler max\<close>, \<open>StandardScaler mean std\<close>, \<open>MinMax01Scaler max min\<close>,
  \<open>MinMax11Scaler max min\<close> and \<open>NoneScaler\<close>.
\<close>

datatype scaler =
  NormalScaler npfloat
| StandardScaler npfloat npfloat
| MinMax01Scaler npfloat npfloat
| MinMax11Scaler npfloat npfloat
| NoneScaler

text \<open>
  Modelled from the spec: the classes \<^verbatim>\<open>NormalScaler\<close>, \<^verbatim>\<open>StandardScaler\<close>,
  \<^verbatim>\<open>MinMax01Scaler\<close>, \<^verbatim>\<open>MinMax11Scaler\<close> and \<^verbatim>\<open>NoneScaler\<close> are imported from
  \<^verbatim>\<open>trafficdl.utils\<close>, which is not among the sources.  Their \<^verbatim>\<open>transform\<close> and
  \<^verbatim>\<open>inverse_transform\<close> follow section 4.7 of the specification: the identity; division
  by the maximum and multiplication back; subtraction of the mean and division by the
  standard deviation, and the reverse; the linear rescaling of \<open>min .. max\<close> to
  \<open>0 .. 1\<close> and to \<open>-1 .. 1\<close>, and the reverse.  Both act element-wise.
\<close>

fun transform :: "scaler \<Rightarrow> npfloat \<Rightarrow> npfloat" where
  "transform NoneScaler x = x"
| "transform (NormalScaler mx) x = fdiv x mx"
| "transform (StandardScaler mean std) x = fdiv (fsub x mean) std"
| "transform (MinMax01Scaler mx mn) x = fdiv (fsub x mn) (fsub mx mn)"
| "transform (MinMax11Scaler mx mn) x =
     fsub (fmul (fdiv (fsub x mn) (fsub mx mn)) (Fin 2)) (Fin 1)"

text \<open>
  Modelled from the spec: \<^verbatim>\<open>inverse_transform\<close> of the same classes of \<^verbatim>\<open>trafficdl.utils\<close>
  (not among the sources), the reverse of each rescaling as section 4.7 describes it.
\<close>

fun inverse_transform :: "scaler \<Rightarrow> npfloat \<Rightarrow> npfloat" where
  "inverse_transform NoneScaler x = x"
| "inverse_transform (NormalScaler mx) x = fmul x mx"
| "inverse_transform (StandardScaler mean std) x = fadd (fmul x std) mean"
| "inverse_transform (MinMax01Scaler mx mn) x = fadd (fmul x (fsub mx mn)) mn"
| "inverse_transform (MinMax11Scaler mx mn) x =
     fadd (fmul (fdiv (fadd x (Fin 1)) (Fin 2)) (fsub mx mn)) mn"

text \<open>
  The statistics for which the rescaling divides by a non-zero finite number: a finite
  non-zero maximum, a finite mean with a finite non-zero standard deviation, finite and
  distinct maximum and minimum.
\<close>

fun nondegenerate :: "scaler \<Rightarrow> bool" where
  "nondegenerate NoneScaler = True"
| "nondegenerate (NormalScaler (Fin mx)) = (mx \<noteq> 0)"
| "nondegenerate (StandardScaler (Fin mean) (Fin std)) = (std \<noteq> 0)"
| "nondegenerate (MinMax01Scaler (Fin mx) (Fin mn)) = (mx \<noteq> mn)"
| "nondegenerate (MinMax11Scaler (Fin mx) (Fin mn)) = (mx \<noteq> mn)"
| "nondegenerate _ = False"

text \<open>
  A four-dimensional array \<open>(num_samples, window, num_nodes, feature_dim)\<close> as nested
  lists; \<open>channels k a\<close> is \<^verbatim>\<open>a[..., :k]\<close> and \<open>flat a\<close> lists all elements.
\<close>

type_synonym array4 = "npfloat list list list list"

definition channels :: "int \<Rightarrow> array4 \<Rightarrow> array4" where
  "channels k a = map (map (map (py_slice None (Some k)))) a"

definition flat :: "array4 \<Rightarrow> npfloat list" where
  "flat a = concat (concat (concat a))"

text \<open>
  \<^verbatim>\<open>_get_scalar\<close>, as a function of \<^verbatim>\<open>self.scaler_type\<close>, \<^verbatim>\<open>self.output_dim\<close> and
  the six arrays (packed in a record \<open>p\<close>).  The reductions are evaluated in the order of
  the source, so the first one that raises decides the exception.
\<close>

definition get_scalar :: "string \<Rightarrow> int \<Rightarrow> npfloat list list list partitions \<Rightarrow> error + scaler" where
  "get_scalar scaler_type output_dim p =
     (if scaler_type = ''normal'' then
        (case mapM (\<lambda>a. np_max (flat (channels output_dim a)))
                [x_train p, y_train p, x_val p, y_val p, x_test p, y_test p] of
           Inl e \<Rightarrow> Inl e
         | Inr ms \<Rightarrow> (case py_fmax ms of Inl e \<Rightarrow> Inl e | Inr m \<Rightarrow> Inr (NormalScaler m)))
      else if scaler_type = ''standard'' then
        Inr (StandardScaler (np_mean (flat (channels output_dim (x_train p))))
                            (np_std (flat (channels output_dim (x_train p)))))
      else if scaler_type = ''minmax01'' then
        (case mapM (\<lambda>a. np_max (flat (channels output_dim a))) [x_train p, y_train p] of
           Inl e \<Rightarrow> Inl e
         | Inr maxs \<Rightarrow>
             (case py_fmax maxs of
                Inl e \<Rightarrow> Inl e
              | Inr mx \<Rightarrow>
                  (case mapM (\<lambda>a. np_min (flat (channels output_dim a))) [x_train p, y_train p] of
                     Inl e \<Rightarrow> Inl e
                   | Inr mins \<Rightarrow>
                       (case py_fmin mins of
                          Inl e \<Rightarrow> Inl e
                        | Inr mn \<Rightarrow> Inr (MinMax01Scaler mx mn)))))
      else if scaler_type = ''minmax11'' then
        (case mapM (\<lambda>a. np_max (flat (channels output_dim a))) [x_train p, y_train p] of
           Inl e \<Rightarrow> Inl e
         | Inr maxs \<Rightarrow>
             (case py_fmax maxs of
                Inl e \<Rightarrow> Inl e
              | Inr mx \<Rightarrow>
                  (case mapM (\<lambda>a. np_min (flat (channels output_dim a))) [x_train p, y_train p] of
                     Inl e \<Rightarrow> Inl e
                   | Inr mins \<Rightarrow>
                       (case py_fmin mins of
                          Inl e \<Rightarrow> Inl e
                        | Inr mn \<Rightarrow> Inr (MinMax11Scaler mx mn)))))
      else if scaler_type = ''none'' then Inr NoneScaler
      else Inl ValueError)"

section \<open>Embedding scorer\<close>

text \<open>
  An embedding table is a list of rows, one vector per node.  The lookup
  \<^verbatim>\<open>nn.Embedding.__call__\<close> on a batch of indices raises \<^verbatim>\<open>IndexError\<close> on an index
  outside \<open>0 .. num_nodes - 1\<close>.
\<close>

type_synonym table = "real list list"

definition embedding :: "table \<Rightarrow> int list \<Rightarrow> error + real list list" where
  "embedding weight idx =
     mapM (\<lambda>i. if 0 \<le> i \<and> i < int (length weight) then Inr (weight ! nat i) else Inl IndexError) idx"

text \<open>
  An element-wise operation on two batches: batches of equal length are paired, a batch
  of length one is broadcast, and any other pair of lengths is a \<^verbatim>\<open>RuntimeError\<close>.
\<close>

definition broadcast2 :: "('a \<Rightarrow> 'b \<Rightarrow> 'c) \<Rightarrow> 'a list \<Rightarrow> 'b list \<Rightarrow> error + 'c list" where
  "broadcast2 f xs ys =
     (if length xs = length ys then Inr (map2 f xs ys)
      else if length xs = 1 then Inr (map (f (hd xs)) ys)
      else if length ys = 1 then Inr (map (\<lambda>x. f x (hd ys)) xs)
      else Inl RuntimeError)"

text \<open>\<^verbatim>\<open>(vi * vj).sum(dim=-1)\<close> on one pair of rows.\<close>

definition mul_sum :: "real list \<Rightarrow> real list \<Rightarrow> real" where
  "mul_sum vi vj = sum_list (map2 (*) vi vj)"

text \<open>The dot product of two vectors of the same dimension.\<close>

definition dot :: "real list \<Rightarrow> real list \<Rightarrow> real" where
  "dot u v = (\<Sum>d < length u. u ! d * v ! d)"

datatype line_embed = LINE_FIRST table | LINE_SECOND table table

text \<open>\<^verbatim>\<open>LINE_FIRST.forward\<close> and \<^verbatim>\<open>LINE_SECOND.forward\<close>.\<close>

definition forward_first :: "table \<Rightarrow> int list \<Rightarrow> int list \<Rightarrow> error + real list" where
  "forward_first node_emb i j =
     (case embedding node_emb i of
        Inl e \<Rightarrow> Inl e
      | Inr vi \<Rightarrow>
          (case embedding node_emb j of
             Inl e \<Rightarrow> Inl e
           | Inr vj \<Rightarrow> broadcast2 mul_sum vi vj))"

definition forward_second :: "table \<Rightarrow> table \<Rightarrow> int list \<Rightarrow> int list \<Rightarrow> error + real list" where
  "forward_second node_emb context_emb i j =
     (case embedding node_emb i of
        Inl e \<Rightarrow> Inl e
      | Inr vi \<Rightarrow>
          (case embedding context_emb j of
             Inl e \<Rightarrow> Inl e
           | Inr vj \<Rightarrow> broadcast2 mul_sum vi vj))"

text \<open>
  \<^verbatim>\<open>LINE.__init__\<close>: the selection of the scorer by \<^verbatim>\<open>order\<close>.  The freshly created
  tables (random in the source) are arguments.
\<close>

definition line_init :: "string \<Rightarrow> table \<Rightarrow> table \<Rightarrow> error + line_embed" where
  "line_init order node_emb context_emb =
     (if order = ''first'' then Inr (LINE_FIRST node_emb)
      else if order = ''second'' then Inr (LINE_SECOND node_emb context_emb)
      else Inl ValueError)"

text \<open>\<^verbatim>\<open>LINE.forward\<close>: the call of the selected scorer.\<close>

fun forward :: "line_embed \<Rightarrow> int list \<Rightarrow> int list \<Rightarrow> error + real list" where
  "forward (LINE_FIRST node_emb) i j = forward_first node_emb i j"
| "forward (LINE_SECOND node_emb context_emb) i j = forward_second node_emb context_emb i j"

text \<open>
  \<^verbatim>\<open>F.logsigmoid\<close>, and \<^verbatim>\<open>.mean()\<close> of a tensor of finite values (NaN on an empty
  tensor).
\<close>

definition sigmoid :: "real \<Rightarrow> real" where
  "sigmoid x = 1 / (1 + exp (- x))"

definition logsigmoid :: "real \<Rightarrow> real" where
  "logsigmoid x = ln (sigmoid x)"

definition tensor_mean :: "real list \<Rightarrow> npfloat" where
  "tensor_mean xs = fdiv (Fin (sum_list xs)) (Fin (real (length xs)))"

text \<open>\<^verbatim>\<open>LINE.calculate_loss\<close> on the batch fields \<^verbatim>\<open>I\<close>, \<^verbatim>\<open>J\<close> and \<^verbatim>\<open>Neg\<close>.\<close>

definition calculate_loss :: "line_embed \<Rightarrow> int list \<Rightarrow> int list \<Rightarrow> real list \<Rightarrow> error + npfloat" where
  "calculate_loss model i j is_neg =
     (case forward model i j of
        Inl e \<Rightarrow> Inl e
      | Inr dot_product \<Rightarrow>
          (case broadcast2 (*) dot_product is_neg of
             Inl e \<Rightarrow> Inl e
           | Inr scaled \<Rightarrow> Inr (fneg (tensor_mean (map logsigmoid scaled)))))"

section \<open>The dataset object\<close>

text \<open>
  The value of \<^verbatim>\<open>data_col\<close>: a string, or a list of column names.  A list is a mutable
  object that the configuration and the dataset object share, so it is a reference into
  a store of list objects.
\<close>

datatype pyval = PyStr string | PyList nat

type_synonym heap = "nat \<Rightarrow> string list"

text \<open>
  A numpy \<^verbatim>\<open>datetime64\<close> value, represented by the two quantities the pipeline derives
  from it: the fraction of the day elapsed since midnight, and the weekday
  (Monday is 0).
\<close>

datatype datetime64 = Datetime64 (time_of_day: real) (weekday: nat)

text \<open>
  A cell of a table is a number or a string (in a feature column: a string that is not
  the text of a number).
\<close>

datatype cell = CNum npfloat | CStr string

text \<open>
  The attribute \<^verbatim>\<open>timesolts\<close>: absent after \<^verbatim>\<open>__init__\<close>; the list of cells line 136 of
  \<^verbatim>\<open>_load_dyna\<close> assigns, the list of strings line 137 assigns, and the array of
  \<^verbatim>\<open>datetime64\<close> values line 138 assigns.
\<close>

datatype timesolts_value =
  TsUnset | TsCells "cell list" | TsStrings "string list" | TsDatetimes "datetime64 list"

text \<open>The attributes \<^verbatim>\<open>__init__\<close>, \<^verbatim>\<open>_load_geo\<close> and \<^verbatim>\<open>_load_dyna\<close> set.\<close>

record traffic_speed_dataset =
  dataset :: string
  points_per_hour :: int
  input_window :: int
  output_window :: int
  output_dim :: int
  batch_size :: int
  num_workers :: int
  add_time_in_day :: bool
  add_day_in_week :: bool
  pad_with_last_sample :: bool
  weight_col :: string
  data_col :: pyval
  calculate_weight :: bool
  adj_epsilon :: real
  train_rate :: real
  eval_rate :: real
  scaler_type :: string
  cache_dataset :: bool
  geo_ids :: "int list"
  timesolts :: timesolts_value

subsection \<open>Cache fingerprint\<close>

text \<open>\<^verbatim>\<open>str\<close> of an integer and of a boolean.\<close>

fun str_nat :: "nat \<Rightarrow> string" where
  "str_nat n =
     (if n < 10 then [char_of (48 + n)] else str_nat (n div 10) @ [char_of (48 + n mod 10)])"

definition str_int :: "int \<Rightarrow> string" where
  "str_int i = (if i < 0 then CHR ''-'' # str_nat (nat (- i)) else str_nat (nat i))"

definition str_bool :: "bool \<Rightarrow> string" where
  "str_bool b = (if b then ''True'' else ''False'')"

text \<open>
  \<^verbatim>\<open>parameters_str\<close> and \<^verbatim>\<open>cache_file_name\<close> of \<^verbatim>\<open>__init__\<close>.  The rendering of a float
  by \<^verbatim>\<open>str\<close> is the argument \<open>str_float\<close>.  None of the attributes read here is assigned
  again after \<^verbatim>\<open>__init__\<close>, so the file name is a function of the object.
\<close>

definition parameters_str :: "(real \<Rightarrow> string) \<Rightarrow> traffic_speed_dataset \<Rightarrow> string" where
  "parameters_str str_float self =
     dataset self @ ''_'' @ str_int (input_window self) @ ''_'' @ str_int (output_window self) @ ''_''
     @ str_float (train_rate self) @ ''_'' @ str_float (eval_rate self) @ ''_'' @ scaler_type self @ ''_''
     @ str_int (batch_size self) @ ''_'' @ str_bool (add_time_in_day self) @ ''_''
     @ str_bool (add_day_in_week self) @ ''_'' @ str_bool (pad_with_last_sample self)"

definition cache_file_name :: "(real \<Rightarrow> string) \<Rightarrow> traffic_speed_dataset \<Rightarrow> string" where
  "cache_file_name str_float self =
     ''./trafficdl/cache/dataset_cache/'' @ ''point_based_'' @ parameters_str str_float self @ ''.npz''"

subsection \<open>Time-series loader\<close>

text \<open>
  A pandas frame: the number of rows and the labelled columns in order, each with one
  cell per row.  A frame read from a file has distinct labels; a selection can repeat
  them.
\<close>

record frame =
  nrows :: nat
  columns :: "(string \<times> cell list) list"

text \<open>
  \<^verbatim>\<open>frame[labels]\<close> with a list of labels: for each label in turn all the columns that
  carry it, \<^verbatim>\<open>KeyError\<close> when there is none.
\<close>

definition df_select :: "frame \<Rightarrow> string list \<Rightarrow> error + frame" where
  "df_select f labels =
     (case mapM (\<lambda>l. case filter (\<lambda>c. fst c = l) (columns f) of
                        [] \<Rightarrow> Inl KeyError
                      | c # cs \<Rightarrow> Inr (c # cs)) labels of
        Inl e \<Rightarrow> Inl e
      | Inr css \<Rightarrow> Inr (f\<lparr>columns := concat css\<rparr>))"

text \<open>\<^verbatim>\<open>frame.values\<close>: the rows of the frame.\<close>

definition df_values :: "frame \<Rightarrow> cell list list" where
  "df_values f = map (\<lambda>r. map (\<lambda>c. snd c ! r) (columns f)) [0..<nrows f]"

text \<open>\<^verbatim>\<open>xs.insert(i, x)\<close> for \<open>i \<ge> 0\<close>.\<close>

definition list_insert :: "nat \<Rightarrow> 'a \<Rightarrow> 'a list \<Rightarrow> 'a list" where
  "list_insert i x xs = take i xs @ x # drop i xs"

text \<open>
  Lines 125--134 of \<^verbatim>\<open>_load_dyna\<close>: the columns to load.  When \<^verbatim>\<open>data_col\<close> is a list,
  the local name \<^verbatim>\<open>data_col\<close> is bound to that same list object and the two insertions
  update it in the store; when it is a string, they update a fresh list.
\<close>

definition dyna_columns :: "frame \<Rightarrow> pyval \<Rightarrow> heap \<Rightarrow> (error + frame) \<times> heap" where
  "dyna_columns dynafile dc h =
     (if dc \<noteq> PyStr [] then
        (case dc of
           PyList r \<Rightarrow>
             (let cols = list_insert 1 ''entity_id'' (list_insert 0 ''time'' (h r))
              in (df_select dynafile cols, h(r := cols)))
         | PyStr s \<Rightarrow>
             (let cols = list_insert 1 ''entity_id'' (list_insert 0 ''time'' [s])
              in (df_select dynafile cols, h)))
      else (df_select dynafile (py_slice (Some 2) None (map fst (columns dynafile))), h))"

text \<open>\<^verbatim>\<open>x.replace('T', ' ').replace('Z', '')\<close>.\<close>

definition replace_T_Z :: "string \<Rightarrow> string" where
  "replace_T_Z x = filter (\<lambda>c. c \<noteq> CHR ''Z'') (map (\<lambda>c. if c = CHR ''T'' then CHR '' '' else c) x)"

text \<open>
  Lines 136--138: the time axis, given the current value of \<^verbatim>\<open>self.timesolts\<close>; the
  result comes with the value of \<^verbatim>\<open>self.timesolts\<close> when the lines return or raise.
  \<open>parse\<close> stands for the conversion of a string to \<^verbatim>\<open>datetime64[ns]\<close>, \<open>None\<close> where
  numpy raises \<^verbatim>\<open>ValueError\<close>.  With one column labelled \<^verbatim>\<open>time\<close>, line 136 assigns its
  first \<^verbatim>\<open>int(rows / len(geo_ids))\<close> cells, line 137 the strings after the two
  replacements, line 138 the converted values.  With several such columns
  \<^verbatim>\<open>dynafile['time']\<close> is a frame, \<^verbatim>\<open>list\<close> of it yields its labels, which the replacements
  leave as they are, and the conversion of the label \<^verbatim>\<open>time\<close> raises \<^verbatim>\<open>ValueError\<close>.
\<close>

definition dyna_timesolts ::
    "(string \<Rightarrow> datetime64 option) \<Rightarrow> frame \<Rightarrow> nat \<Rightarrow> timesolts_value
      \<Rightarrow> (error + datetime64 list) \<times> timesolts_value" where
  "dyna_timesolts parse dynafile num_geo ts0 =
     (case filter (\<lambda>c. fst c = ''time'') (columns dynafile) of
        [] \<Rightarrow> (Inl KeyError, ts0)
      | [c] \<Rightarrow>
          (if num_geo = 0 then (Inl ZeroDivisionError, ts0)
           else
             (let cells = take (nrows dynafile div num_geo) (snd c)
              in case mapM (\<lambda>x. case x of CStr s \<Rightarrow> Inr (replace_T_Z s) | CNum v \<Rightarrow> Inl AttributeError)
                        cells of
                   Inl e \<Rightarrow> (Inl e, TsCells cells)
                 | Inr strs \<Rightarrow>
                     (case mapM (\<lambda>s. case parse s of None \<Rightarrow> Inl ValueError | Some d \<Rightarrow> Inr d) strs of
                        Inl e \<Rightarrow> (Inl e, TsStrings strs)
                      | Inr ds \<Rightarrow> (Inr ds, TsDatetimes ds))))
      | c # c' # cs \<Rightarrow>
          (if num_geo = 0 then (Inl ZeroDivisionError, ts0)
           else (Inl ValueError, TsStrings (map (\<lambda>c. replace_T_Z (fst c)) (c # c' # cs)))))"

text \<open>
  \<^verbatim>\<open>range(0, n, step)\<close>, and \<^verbatim>\<open>np.array(chunks, dtype=np.float)\<close> on a list of blocks of
  rows: \<^verbatim>\<open>ValueError\<close> when the blocks differ in length or a cell is a string.
\<close>

definition range_step :: "nat \<Rightarrow> nat \<Rightarrow> nat list" where
  "range_step n step = map (\<lambda>k. k * step) [0..<(n + step - 1) div step]"

definition cell_float :: "cell \<Rightarrow> error + npfloat" where
  "cell_float x = (case x of CNum v \<Rightarrow> Inr v | CStr s \<Rightarrow> Inl ValueError)"

definition np_array_float :: "cell list list list \<Rightarrow> error + npfloat list list list" where
  "np_array_float chunks =
     (if \<exists>c \<in> set chunks. length c \<noteq> length (hd chunks) then Inl ValueError
      else mapM (mapM (mapM cell_float)) chunks)"

text \<open>\<^verbatim>\<open>data.swapaxes(0, 1)\<close> on an array of shape \<open>(n, len_time, feature_dim)\<close>.\<close>

definition swapaxes01 :: "nat \<Rightarrow> 'a list list \<Rightarrow> 'a list list" where
  "swapaxes01 len_time data = map (\<lambda>t. map (\<lambda>chunk. chunk ! t) data) [0..<len_time]"

text \<open>Lines 140--147: the feature columns, cut into blocks of \<open>len_time\<close> rows.\<close>

definition dyna_data :: "frame \<Rightarrow> nat \<Rightarrow> error + npfloat list list list" where
  "dyna_data dynafile len_time =
     (let labels = map fst (columns dynafile);
          feature_dim = int (length labels) - 2
      in case df_select dynafile (py_slice (Some (- feature_dim)) None labels) of
           Inl e \<Rightarrow> Inl e
         | Inr df \<Rightarrow>
             (if len_time = 0 then Inl ValueError
              else
                (case np_array_float
                        (map (\<lambda>i. take len_time (drop i (df_values df))) (range_step (nrows df) len_time)) of
                   Inl e \<Rightarrow> Inl e
                 | Inr data \<Rightarrow> Inr (swapaxes01 len_time data))))"

text \<open>
  \<^verbatim>\<open>_load_dyna\<close> on the parsed \<^verbatim>\<open>.dyna\<close> file.  It returns the tensor
  \<open>(len_time, num_nodes, feature_dim)\<close> or the exception, with the object and the store
  as they are when it returns or raises.
\<close>

definition load_dyna ::
    "(string \<Rightarrow> datetime64 option) \<Rightarrow> frame \<Rightarrow> traffic_speed_dataset \<Rightarrow> heap
      \<Rightarrow> (error + npfloat list list list) \<times> traffic_speed_dataset \<times> heap" where
  "load_dyna parse dynafile0 self h =
     (case dyna_columns dynafile0 (data_col self) h of
        (Inl e, h') \<Rightarrow> (Inl e, self, h')
      | (Inr dynafile, h') \<Rightarrow>
          (case dyna_timesolts parse dynafile (length (geo_ids self)) (timesolts self) of
             (Inl e, ts) \<Rightarrow> (Inl e, self\<lparr>timesolts := ts\<rparr>, h')
           | (Inr ds, ts) \<Rightarrow> (dyna_data dynafile (length ds), self\<lparr>timesolts := ts\<rparr>, h')))"

subsection \<open>Temporal features\<close>

text \<open>
  \<^verbatim>\<open>_add_time_meta_information\<close> on a tensor of \<open>n\<close> frames, with \<open>m\<close> timestamps in
  \<^verbatim>\<open>timesolts\<close>.  With both flags off the tensor is returned and \<^verbatim>\<open>timesolts\<close> is not
  read.  Otherwise a \<^verbatim>\<open>timesolts\<close> that is absent or a list raises \<^verbatim>\<open>AttributeError\<close>.  The
  assignment \<^verbatim>\<open>day_in_week[np.arange(n), :, dayofweek] = 1\<close> broadcasts the two index arrays:
  it raises \<^verbatim>\<open>IndexError\<close> unless \<open>n = m\<close>, \<open>m = 1\<close> or \<open>n = 1\<close>; with \<open>n = m\<close> frame \<open>i\<close> gets
  the weekday of timestamp \<open>i\<close>, with \<open>m = 1\<close> every frame gets the weekday of the one
  timestamp, and with \<open>n = 1\<close> the one frame gets the weekdays of all timestamps.
  \<^verbatim>\<open>np.concatenate\<close> then raises \<^verbatim>\<open>ValueError\<close> when the time of day is added and
  \<open>m \<noteq> n\<close>.  The channels are appended in the order raw features, time of day, weekday.
\<close>

definition day_is_hot :: "datetime64 list \<Rightarrow> nat \<Rightarrow> nat \<Rightarrow> nat \<Rightarrow> bool" where
  "day_is_hot ts n i k =
     (if length ts = n then k = weekday (ts ! i)
      else if length ts = 1 then k = weekday (ts ! 0)
      else k \<in> weekday ` set ts)"

definition time_features :: "traffic_speed_dataset \<Rightarrow> datetime64 list \<Rightarrow> nat \<Rightarrow> nat \<Rightarrow> npfloat list" where
  "time_features self ts n i =
     (if add_time_in_day self then [Fin (time_of_day (ts ! i))] else [])
     @ (if add_day_in_week self then map (\<lambda>k. Fin (if day_is_hot ts n i k then 1 else 0)) [0..<7]
        else [])"

definition add_time_meta_information ::
    "traffic_speed_dataset \<Rightarrow> npfloat list list list \<Rightarrow> error + npfloat list list list" where
  "add_time_meta_information self df =
     (if \<not> add_time_in_day self \<and> \<not> add_day_in_week self then Inr df
      else
        (case timesolts self of
           TsDatetimes ts \<Rightarrow>
             (let n = length df; m = length ts
              in if add_day_in_week self \<and> n \<noteq> m \<and> m \<noteq> 1 \<and> n \<noteq> 1 then Inl IndexError
                 else if add_time_in_day self \<and> m \<noteq> n then Inl ValueError
                 else Inr (map (\<lambda>i. map (\<lambda>features. features @ time_features self ts n i) (df ! i))
                             [0..<n]))
         | _ \<Rightarrow> Inl AttributeError))"

subsection \<open>Generation and cache\<close>

text \<open>
  The cache directory: the arrays saved under each file name.
\<close>

type_synonym cache = "string \<rightharpoonup> npfloat list list list partitions"

text \<open>
  \<^verbatim>\<open>_generate_train_val_test\<close>: load, augment, cut into windows, split, and save the six
  arrays under \<^verbatim>\<open>cache_file_name\<close> when caching is enabled.
\<close>

definition generate_train_val_test ::
    "(real \<Rightarrow> string) \<Rightarrow> (string \<Rightarrow> datetime64 option) \<Rightarrow> frame \<Rightarrow> traffic_speed_dataset \<Rightarrow> heap \<Rightarrow> cache
      \<Rightarrow> (error + npfloat list list list partitions) \<times> traffic_speed_dataset \<times> heap \<times> cache" where
  "generate_train_val_test str_float parse dynafile self h fs =
     (case load_dyna parse dynafile self h of
        (Inl e, self', h') \<Rightarrow> (Inl e, self', h', fs)
      | (Inr df, self', h') \<Rightarrow>
          (case add_time_meta_information self' df of
             Inl e \<Rightarrow> (Inl e, self', h', fs)
           | Inr df' \<Rightarrow>
               (case generate_input_data (input_window self') (output_window self') df' of
                  Inl e \<Rightarrow> (Inl e, self', h', fs)
                | Inr (x, y) \<Rightarrow>
                    (let p = split_train_val_test (train_rate self') (eval_rate self') x y
                     in (Inr p, self', h',
                         if cache_dataset self' then fs(cache_file_name str_float self' \<mapsto> p) else fs)))))"


text \<open>
  Lines 310--315 of \<^verbatim>\<open>get_data\<close> on its first call (\<^verbatim>\<open>self.data is None\<close>): the cached
  arrays when caching is enabled and the file exists, else the generated ones.
\<close>

definition get_data_arrays ::
    "(real \<Rightarrow> string) \<Rightarrow> (string \<Rightarrow> datetime64 option) \<Rightarrow> frame \<Rightarrow> traffic_speed_dataset \<Rightarrow> heap \<Rightarrow> cache
      \<Rightarrow> (error + npfloat list list list partitions) \<times> traffic_speed_dataset \<times> heap \<times> cache" where
  "get_data_arrays str_float parse dynafile self h fs =
     (case (if cache_dataset self then fs (cache_file_name str_float self) else None) of
        Some p \<Rightarrow> (Inr p, self, h, fs)
      | None \<Rightarrow> generate_train_val_test str_float parse dynafile self h fs)"

section \<open>Example inputs\<close>

text \<open>
  A \<^verbatim>\<open>.dyna\<close> table of two entities (7 and 8) over four timestamps, entity by entity,
  with the feature columns \<^verbatim>\<open>speed\<close> and \<^verbatim>\<open>flow\<close>; a dataset object with the defaults of
  \<^verbatim>\<open>__init__\<close> except for windows of length one (the rates are the doubles nearest to 0.7
  and 0.1); a datetime conversion that accepts every string; and a float rendering that
  knows the two default rates.
\<close>

definition example_dyna :: frame where
  "example_dyna =
     \<lparr>nrows = 8,
      columns =
        [(''dyna_id'', map (\<lambda>v. CNum (Fin v)) [0, 1, 2, 3, 4, 5, 6, 7]),
         (''type'', replicate 8 (CStr ''state'')),
         (''time'', map CStr [''2012-03-01T00:00:00Z'', ''2012-03-01T00:05:00Z'',
                              ''2012-03-01T00:10:00Z'', ''2012-03-01T00:15:00Z'',
                              ''2012-03-01T00:00:00Z'', ''2012-03-01T00:05:00Z'',
                              ''2012-03-01T00:10:00Z'', ''2012-03-01T00:15:00Z'']),
         (''entity_id'', map (\<lambda>v. CNum (Fin v)) [7, 7, 7, 7, 8, 8, 8, 8]),
         (''speed'', map (\<lambda>v. CNum (Fin v)) [1, 2, 3, 4, 5, 6, 7, 8]),
         (''flow'', map (\<lambda>v. CNum (Fin v)) [10, 20, 30, 40, 50, 60, 70, 80])]\<rparr>"

definition example_dataset :: traffic_speed_dataset where
  "example_dataset =
     \<lparr>dataset = ''METR'', points_per_hour = 12, input_window = 1, output_window = 1,
      output_dim = 0, batch_size = 64, num_workers = 1, add_time_in_day = False,
      add_day_in_week = False, pad_with_last_sample = True, weight_col = [],
      data_col = PyStr [], calculate_weight = False, adj_epsilon = fl (1 / 10),
      train_rate = fl (7 / 10), eval_rate = fl (1 / 10), scaler_type = ''none'',
      cache_dataset = True, geo_ids = [7, 8], timesolts = TsUnset\<rparr>"

definition example_parse :: "string \<Rightarrow> datetime64 option" where
  "example_parse s = Some (Datetime64 0 3)"

definition example_str_float :: "real \<Rightarrow> string" where
  "example_str_float r =
     (if r = fl (7 / 10) then ''0.7'' else if r = fl (1 / 10) then ''0.1'' else ''0.5'')"

text \<open>A store in which every list object is empty.\<close>

definition example_heap :: heap where
  "example_heap r = []"

text \<open>
  Six arrays of one sample, one timestep, one node and two channels each, and the same
  arrays with another first channel in the test input.
\<close>

definition example_partitions :: "npfloat list list list partitions" where
  "example_partitions =
     \<lparr>x_train = [[[[Fin 1, Fin 9]]]], y_train = [[[[Fin 2, Fin 9]]]],
      x_val = [[[[Fin 3, Fin 9]]]], y_val = [[[[Fin 4, Fin 9]]]],
      x_test = [[[[Fin 5, Fin 9]]]], y_test = [[[[Fin 6, Fin 9]]]]\<rparr>"

definition example_partitions_test50 :: "npfloat list list list partitions" where
  "example_partitions_test50 = example_partitions\<lparr>x_test := [[[[Fin 50, Fin 9]]]]\<rparr>"

text \<open>
  The example object with \<^verbatim>\<open>data_col\<close> the list object 0, a store in which that object
  is \<^verbatim>\<open>['flow']\<close>, and the example object with \<^verbatim>\<open>data_col\<close> the string \<^verbatim>\<open>speed\<close> and the
  string \<^verbatim>\<open>flow\<close>.
\<close>

definition example_dataset_list :: traffic_speed_dataset where
  "example_dataset_list = example_dataset\<lparr>data_col := PyList 0\<rparr>"

definition example_heap_flow :: heap where
  "example_heap_flow = example_heap(0 := [''flow''])"

definition example_dataset_speed :: traffic_speed_dataset where
  "example_dataset_speed = example_dataset\<lparr>data_col := PyStr ''speed''\<rparr>"

definition example_dataset_flow :: traffic_speed_dataset where
  "example_dataset_flow = example_dataset\<lparr>data_col := PyStr ''flow''\<rparr>"

section \<open>Properties of the rounding to doubles\<close>

lemma floorlog_pos: "0 < m \<Longrightarrow> 0 < floorlog 2 m"
  by (simp add: floorlog_def)

text \<open>The exponent computed for a positive number is that of its binade.\<close>

lemma double_exponent_bounds:
  assumes "0 < x"
  shows "2 powi double_exponent x \<le> x \<and> x < 2 powi (double_exponent x + 1)"
proof (cases "1 \<le> x")
  case True
  define m where "m = nat \<lfloor>x\<rfloor>"
  define k where "k = floorlog 2 m"
  have m: "0 < m" using True by (simp add: m_def)
  from floorlog_bounds[OF m, of 2] have b: "2 ^ (k - 1) \<le> m" "m < 2 ^ k" by (simp_all add: k_def)
  have k: "0 < k" unfolding k_def using m by (rule floorlog_pos)
  have e: "double_exponent x = int (k - 1)" using True k by (simp add: double_exponent_def k_def m_def)
  have mx: "real m \<le> x" "x < real m + 1" using True by (simp_all add: m_def)
  have "(2::real) ^ (k - 1) \<le> real m" using b(1)
    by (metis of_nat_le_iff of_nat_numeral of_nat_power)
  then have lo: "2 ^ (k - 1) \<le> x" using mx(1) by linarith
  have "Suc m \<le> 2 ^ k" using b(2) by simp
  then have "real (Suc m) \<le> (2::real) ^ k"
    by (metis of_nat_le_iff of_nat_numeral of_nat_power)
  then have "x < 2 ^ k" using mx(2) by simp
  moreover have "Suc (k - 1) = k" using k by simp
  ultimately have hi: "x < 2 ^ Suc (k - 1)" by simp
  have "int (k - 1) + 1 = int (Suc (k - 1))" by simp
  then have p: "(2::real) powi (int (k - 1) + 1) = 2 ^ Suc (k - 1)"
    by (simp only: power_int_of_nat)
  show ?thesis unfolding e p power_int_of_nat using lo hi by blast
next
  case False
  define c where "c = \<lceil>1 / x\<rceil>"
  define m where "m = nat (c - 1)"
  define k where "k = floorlog 2 m"
  have y: "1 < 1 / x" using False assms by simp
  have cy: "1 / x \<le> of_int c" "of_int c < 1 / x + 1" by (simp_all add: c_def) linarith+
  have c: "2 \<le> c" using y cy by linarith
  then have m: "0 < m" "int m = c - 1" by (simp_all add: m_def)
  from floorlog_bounds[OF m(1), of 2] have b: "2 ^ (k - 1) \<le> m" "m < 2 ^ k" by (simp_all add: k_def)
  have k: "0 < k" unfolding k_def using m(1) by (rule floorlog_pos)
  have e: "double_exponent x = - int k" using False by (simp add: double_exponent_def k_def m_def c_def)
  have "int m + 1 \<le> int (2 ^ k)" using b(2) by linarith
  then have "of_int c \<le> (2::real) ^ k" using m(2)
    by (metis add.commute diff_add_cancel of_int_le_iff of_int_of_nat_eq of_nat_numeral of_nat_power)
  then have "1 / x \<le> 2 ^ k" using cy(1) by linarith
  then have lo: "1 / 2 ^ k \<le> x" using assms by (simp add: field_simps)
  have "int (2 ^ (k - 1)) \<le> int m" using b(1) by linarith
  then have "(2::real) ^ (k - 1) \<le> of_int c - 1" using m(2)
    by (metis of_int_1 of_int_diff of_int_le_iff of_int_of_nat_eq of_nat_numeral of_nat_power)
  then have "2 ^ (k - 1) < 1 / x" using cy(2) by linarith
  then have hi: "x < 1 / 2 ^ (k - 1)" using assms by (simp add: field_simps)
  have p1: "(2::real) powi (- int k) = 1 / 2 ^ k"
    by (simp add: power_int_minus field_simps)
  have q: "- int k + 1 = - int (k - 1)" using k by simp
  have "(2::real) powi (- int (k - 1)) = 1 / 2 ^ (k - 1)"
    by (simp add: power_int_minus field_simps)
  then have p2: "(2::real) powi (- int k + 1) = 1 / 2 ^ (k - 1)"
    by (simp only: q)
  show ?thesis unfolding e p1 p2 using lo hi by simp
qed

text \<open>
  One half is a double; the double nearest to 0.7 is \<open>6305039478318694 / 2\<^sup>5\<^sup>3\<close> (the
  bit pattern \<^verbatim>\<open>0x3FE6666666666666\<close>).
\<close>

lemma fl_examples: "fl (1 / 2) = 1 / 2 \<and> fl (7 / 10) = 6305039478318694 / 2 ^ 53"
  by code_simp

section \<open>Properties of the window generator\<close>

lemma mapM_Inr: "(\<And>x. x \<in> set xs \<Longrightarrow> f x = Inr (g x)) \<Longrightarrow> mapM f xs = Inr (map g xs)"
  by (induction xs) auto

lemma py_min_upto: "a \<le> b \<Longrightarrow> py_min [a..b] = Inr (a::int)"
proof -
  assume ab: "a \<le> b"
  then have e: "[a..b] = a # [a + 1..b]" by (simp add: upto_rec1)
  have "fold min [a + 1..b] a = Min (set (a # [a + 1..b]))"
    by (simp only: Min.set_eq_fold)
  also have "\<dots> = a" by (rule Min_eqI) auto
  finally show ?thesis by (simp add: py_min_def e)
qed

lemma py_max_upto: "a \<le> b \<Longrightarrow> py_max [a..b] = Inr (b::int)"
proof -
  assume ab: "a \<le> b"
  then have e: "[a..b] = a # [a + 1..b]" by (simp add: upto_rec1)
  have "fold max [a + 1..b] a = Max (set (a # [a + 1..b]))"
    by (simp only: Max.set_eq_fold)
  also have "\<dots> = b" using ab by (intro Max_eqI) auto
  finally show ?thesis by (simp add: py_max_def e)
qed

lemma np_get_in: "0 \<le> i \<Longrightarrow> i < int (length xs) \<Longrightarrow> np_get xs i = Inr (xs ! nat i)"
  by (simp add: np_get_def)

lemma np_take_upto:
  assumes "0 \<le> t + a" "t + b < int (length xs)"
  shows "np_take xs (map (\<lambda>off. t + off) [a..b]) = Inr (map ((!) xs) [nat (t + a)..<nat (t + b + 1)])"
proof -
  have "map (\<lambda>off. t + off) [a..b] = [t + a..t + b]"
    by (rule nth_equalityI) simp_all
  moreover have "mapM (np_get xs) [t + a..t + b] = Inr (map (\<lambda>i. xs ! nat i) [t + a..t + b])"
    using assms by (intro mapM_Inr np_get_in) auto
  moreover have "map (\<lambda>i. xs ! nat i) [t + a..t + b] = map ((!) xs) [nat (t + a)..<nat (t + b + 1)]"
  proof (rule nth_equalityI)
    show "length (map (\<lambda>i. xs ! nat i) [t + a..t + b]) = length (map ((!) xs) [nat (t + a)..<nat (t + b + 1)])"
      using assms(1) by simp
  next
    fix i assume "i < length (map (\<lambda>i. xs ! nat i) [t + a..t + b])"
    then have i: "int i < t + b - (t + a) + 1" by simp
    then have "nat (t + a) + i < nat (t + b + 1)" using assms(1) by linarith
    then have "map ((!) xs) [nat (t + a)..<nat (t + b + 1)] ! i = xs ! (nat (t + a) + i)"
      by (simp del: upt_Suc)
    moreover have "map (\<lambda>i. xs ! nat i) [t + a..t + b] ! i = xs ! nat (t + a + int i)"
    proof -
      have "[t + a..t + b] ! i = t + a + int i" using i by (intro nth_upto) linarith
      then show ?thesis using i by simp
    qed
    moreover have "nat (t + a + int i) = nat (t + a) + i" using assms(1) by linarith
    ultimately show "map (\<lambda>i. xs ! nat i) [t + a..t + b] ! i = map ((!) xs) [nat (t + a)..<nat (t + b + 1)] ! i"
      by simp
  qed
  ultimately show ?thesis by (simp add: np_take_def)
qed

lemma window_at_in:
  assumes "1 \<le> L_in" "1 \<le> L_out" "int L_in - 1 \<le> t" "t + int L_out < int (length df)"
  shows "window_at df [- int L_in + 1..0] [1..int L_out] t =
           Inr (map ((!) df) [nat t + 1 - L_in..<nat t + 1], map ((!) df) [nat t + 1..<nat t + 1 + L_out])"
proof -
  have "np_take df (map (\<lambda>off. t + off) [- int L_in + 1..0]) =
          Inr (map ((!) df) [nat (t + (- int L_in + 1))..<nat (t + 0 + 1)])"
    using assms by (intro np_take_upto) auto
  moreover have "np_take df (map (\<lambda>off. t + off) [1..int L_out]) =
          Inr (map ((!) df) [nat (t + 1)..<nat (t + int L_out + 1)])"
    using assms by (intro np_take_upto) auto
  moreover have "nat (t + (- int L_in + 1)) = nat t + 1 - L_in" "nat (t + 0 + 1) = nat t + 1"
    "nat (t + 1) = nat t + 1" "nat (t + int L_out + 1) = nat t + 1 + L_out"
    using assms by auto
  ultimately show ?thesis by (simp add: window_at_def)
qed

text \<open>
  C4 (as amended).  For a tensor of \<open>T\<close> timesteps and window lengths \<open>L_in \<ge> 1\<close>,
  \<open>L_out \<ge> 1\<close> with \<open>L_in + L_out \<le> T\<close>, the window generator returns exactly
  \<open>T - L_in - L_out + 1\<close> samples in chronological order: the input of sample \<open>k\<close> is the
  frames at the absolute timesteps \<open>k .. k + L_in - 1\<close> and its target the frames at
  \<open>k + L_in .. k + L_in + L_out - 1\<close>, so the input window ends one step before the target
  window begins.
\<close>

theorem generate_input_data_windows:
  assumes "1 \<le> L_in" and "1 \<le> L_out" and "L_in + L_out \<le> length df"
  shows "generate_input_data (int L_in) (int L_out) df =
           Inr (map (\<lambda>k. map ((!) df) [k..<k + L_in]) [0..<length df - L_in - L_out + 1],
                map (\<lambda>k. map ((!) df) [k + L_in..<k + L_in + L_out]) [0..<length df - L_in - L_out + 1])"
proof -
  let ?T = "length df"
  let ?n = "?T - L_in - L_out + 1"
  let ?xo = "[- int L_in + 1..0]" and ?yo = "[1..int L_out]"
  let ?ts = "[int L_in - 1..int ?T - int L_out - 1]"
  let ?g = "\<lambda>t. (map ((!) df) [nat t + 1 - L_in..<nat t + 1], map ((!) df) [nat t + 1..<nat t + 1 + L_out])"
  have xo: "sort (np_arange (- int L_in + 1) 1) = ?xo" and yo: "sort (np_arange 1 (int L_out + 1)) = ?yo"
    by (simp_all add: np_arange_def sorted_sort_id)
  have mn: "py_min ?xo = Inr (- int L_in + 1)" using assms by (intro py_min_upto) simp
  have mx: "py_max ?yo = Inr (int L_out)" using assms by (intro py_max_upto) simp
  have min_t: "\<bar>- int L_in + 1\<bar> = int L_in - 1" using assms by simp
  have max_t: "\<bar>int ?T - \<bar>int L_out\<bar>\<bar> = int ?T - int L_out" using assms by simp
  have rng: "py_range (int L_in - 1) (int ?T - int L_out) = ?ts"
    by (simp add: py_range_def)
  have loop: "mapM (window_at df ?xo ?yo) ?ts = Inr (map ?g ?ts)"
    using assms by (intro mapM_Inr window_at_in) auto
  have ts: "?ts = map (\<lambda>k. int k + int L_in - 1) [0..<?n]"
    using assms by (intro nth_equalityI) (auto simp: nth_append)
  have ne: "map ?g ?ts \<noteq> []" using assms by (simp add: ts)
  have k: "Suc (nat (int k + int L_in - 1)) = k + L_in" for k using assms(1) by linarith
  have xs: "map fst (map ?g ?ts) = map (\<lambda>k. map ((!) df) [k..<k + L_in]) [0..<?n]"
    unfolding ts by (simp add: comp_def k del: upt_Suc)
  have k2: "Suc (nat (int k + int L_in - 1) + L_out) = k + L_in + L_out" for k using assms(1) by linarith
  have ys: "map snd (map ?g ?ts) = map (\<lambda>k. map ((!) df) [k + L_in..<k + L_in + L_out]) [0..<?n]"
    unfolding ts by (simp add: comp_def k k2 del: upt_Suc)
  have sx: "np_stack (map fst (map ?g ?ts)) = Inr (map (\<lambda>k. map ((!) df) [k..<k + L_in]) [0..<?n])"
    unfolding xs[symmetric] np_stack_def using ne by simp
  have sy: "np_stack (map snd (map ?g ?ts)) = Inr (map (\<lambda>k. map ((!) df) [k + L_in..<k + L_in + L_out]) [0..<?n])"
    unfolding ys[symmetric] np_stack_def using ne by simp
  show ?thesis
    unfolding generate_input_data_def Let_def xo yo
    by (simp only: mn mx sum.case min_t max_t rng loop sx sy)
qed

text \<open>
  The instance of the specification: \<open>L_in = 3\<close>, \<open>L_out = 2\<close> on ten timesteps (each frame
  named by its timestep) gives six samples, the first with input \<open>[0, 1, 2]\<close> and target
  \<open>[3, 4]\<close>.
\<close>

theorem generate_input_data_windows_witness:
  "generate_input_data 3 2 [0, 1, 2, 3, 4, 5, 6, 7, 8, 9 :: nat] =
     Inr ([[0, 1, 2], [1, 2, 3], [2, 3, 4], [3, 4, 5], [4, 5, 6], [5, 6, 7]],
          [[3, 4], [4, 5], [5, 6], [6, 7], [7, 8], [8, 9]])"
  using generate_input_data_windows [of 3 2 "[0, 1, 2, 3, 4, 5, 6, 7, 8, 9 :: nat]"]
  by (simp add: upt_rec)

text \<open>
  At \<open>L_in + L_out = T + 1\<close> the loop runs zero times and \<^verbatim>\<open>np.stack\<close> of the empty list
  raises: the generator does not return an empty sample set.
\<close>

theorem generate_input_data_boundary_counterexample:
  "generate_input_data 3 2 [0, 1, 2, 3 :: nat] = Inl ValueError"
  by code_simp

section \<open>Properties of the split\<close>

lemma py_slice_to: "0 \<le> k \<Longrightarrow> py_slice None (Some k) xs = take (nat k) xs"
  by (simp add: py_slice_def slice_index_def Let_def min_def)

lemma py_slice_between:
  "0 \<le> a \<Longrightarrow> a \<le> b \<Longrightarrow> py_slice (Some a) (Some b) xs = take (nat (b - a)) (drop (nat a) xs)"
  by (auto simp: py_slice_def slice_index_def Let_def min_def nat_diff_distrib)

lemma py_slice_last:
  "0 < k \<Longrightarrow> k \<le> int (length xs) \<Longrightarrow> py_slice (Some (- k)) None xs = drop (length xs - nat k) xs"
  by (simp add: py_slice_def slice_index_def Let_def max_def nat_diff_distrib)

text \<open>
  When the three counts are usable as lengths (the training and validation counts not
  negative, the test count positive), the three partitions are consecutive pieces of the
  sample list, in the order train, validation, test, with those lengths.
\<close>

lemma split_contiguous:
  fixes x :: "'a list"
  defines "n \<equiv> length x"
  assumes tr: "0 \<le> num_train_of a n" and te: "0 < num_test_of a b n" and va: "0 \<le> num_val_of a b n"
  defines "p \<equiv> split_train_val_test a b x x"
  shows "x_train p @ x_val p @ x_test p = x \<and>
         int (length (x_train p)) = num_train_of a n \<and>
         int (length (x_val p)) = num_val_of a b n \<and>
         int (length (x_test p)) = num_test_of a b n"
proof -
  let ?tr = "num_train_of a n" and ?te = "num_test_of a b n" and ?va = "num_val_of a b n"
  have sum: "?tr + ?va + ?te = int n" by (simp add: num_val_of_def)
  have 1: "x_train p = take (nat ?tr) x"
    using tr by (simp add: p_def split_train_val_test_def n_def py_slice_to Let_def)
  have 2: "x_val p = take (nat ?va) (drop (nat ?tr) x)"
    using tr va by (simp add: p_def split_train_val_test_def n_def py_slice_between Let_def)
  have 3: "x_test p = drop (n - nat ?te) x"
    using te tr va sum by (simp add: p_def split_train_val_test_def n_def py_slice_last Let_def)
  have 4: "n - nat ?te = nat ?tr + nat ?va" using tr te va sum by linarith
  have "take (nat ?tr) x @ take (nat ?va) (drop (nat ?tr) x) @ drop (nat ?tr + nat ?va) x = x"
    by (metis append_take_drop_id drop_drop add.commute append.assoc take_add)
  moreover have "nat ?tr \<le> n" "nat ?tr + nat ?va \<le> n" using tr te va sum by linarith+
  ultimately have "x_train p @ x_val p @ x_test p = x"
    "length (x_train p) = nat ?tr" "length (x_val p) = nat ?va" "length (x_test p) = nat ?te"
    using tr va te sum unfolding 1 2 3 4 by (simp_all add: n_def)
  then show ?thesis using tr va te by simp
qed

text \<open>The instance of the specification: 100 samples at the rates 0.7 and 0.1.\<close>

lemma split_counts_100:
  "num_train_of (fl (7 / 10)) 100 = 70 \<and> num_test_of (fl (7 / 10)) (fl (1 / 10)) 100 = 20
   \<and> num_val_of (fl (7 / 10)) (fl (1 / 10)) 100 = 10"
  by code_simp

text \<open>
  The rounding of the double operations decides some counts: \<open>45 * 0.7\<close> is
  \<open>31.499999999999996\<close> as a double, which rounds to 31, and at the rates 0.2 and 0.75 the
  test rate is a little above 0.05, so ten samples give one test sample.
\<close>

lemma split_counts_double_rounding:
  "num_train_of (fl (7 / 10)) 45 = 31 \<and> num_test_of (fl (2 / 10)) (fl (75 / 100)) 10 = 1"
  by code_simp

lemma split_counts_10_half: "num_train_of (1/2) 10 = 5" "num_val_of (1/2) (1/2) 10 = 5" "num_test_of (1/2) (1/2) 10 = 0"
  by code_simp+

text \<open>
  C5 (the code at the failing input).  Ten samples at \<open>train_rate = eval_rate = 0.5\<close>: the
  counts are 5, 5 and 0, but \<^verbatim>\<open>x[-num_test:]\<close> is \<^verbatim>\<open>x[0:]\<close> when \<open>num_test = 0\<close>, so the test
  partition is all ten samples instead of none, and it overlaps the other two.
\<close>

theorem split_zero_test_count:
  "num_train_of (1/2) 10 = 5 \<and> num_val_of (1/2) (1/2) 10 = 5 \<and> num_test_of (1/2) (1/2) 10 = 0 \<and>
   split_train_val_test (1/2) (1/2) [0, 1, 2, 3, 4, 5, 6, 7, 8, 9 :: nat] [0, 1, 2, 3, 4, 5, 6, 7, 8, 9] =
     \<lparr>x_train = [0, 1, 2, 3, 4], y_train = [0, 1, 2, 3, 4],
      x_val = [5, 6, 7, 8, 9], y_val = [5, 6, 7, 8, 9],
      x_test = [0, 1, 2, 3, 4, 5, 6, 7, 8, 9], y_test = [0, 1, 2, 3, 4, 5, 6, 7, 8, 9]\<rparr>"
proof -
  let ?x = "[0, 1, 2, 3, 4, 5, 6, 7, 8, 9 :: nat]"
  have len: "length ?x = 10" by simp
  have s1: "py_slice None (Some 5) ?x = [0, 1, 2, 3, 4]"
    and s2: "py_slice (Some 5) (Some (5 + 5)) ?x = [5, 6, 7, 8, 9]"
    and s3: "py_slice (Some (- 0)) None ?x = ?x"
    by (simp_all add: py_slice_def slice_index_def)
  show ?thesis
    unfolding split_train_val_test_def Let_def len split_counts_10_half s1 s2 s3 by simp
qed








section \<open>Properties of the scaler statistics\<close>

lemma map_Fin_the_fin: "list_all is_fin xs \<Longrightarrow> map Fin (map the_fin xs) = xs"
proof (induction xs)
  case Nil
  then show ?case by simp
next
  case (Cons x xs)
  then show ?case by (cases x) simp_all
qed

lemma fold_fmax_Fin:
  "fold (\<lambda>v acc. if flt acc v then v else acc) (map Fin ys) (Fin a) = Fin (fold max ys a)"
proof (induction ys arbitrary: a)
  case Nil
  then show ?case by simp
next
  case (Cons y ys)
  have "(if a < y then y else a) = max y a" by (simp add: max_def)
  then show ?case using Cons.IH by simp
qed

lemma fold_fmin_Fin:
  "fold (\<lambda>v acc. if flt v acc then v else acc) (map Fin ys) (Fin a) = Fin (fold min ys a)"
proof (induction ys arbitrary: a)
  case Nil
  then show ?case by simp
next
  case (Cons y ys)
  have "(if y < a then y else a) = min y a" by (simp add: min_def)
  then show ?case using Cons.IH by simp
qed

lemma NaN_notin_Fin: "NaN \<notin> set (map Fin xs)"
  by (induction xs) auto

lemma np_max_Fin: "np_max (map Fin (x # xs)) = Inr (Fin (Max (set (x # xs))))"
  using NaN_notin_Fin[of "x # xs"]
  by (simp add: np_max_def fold_fmax_Fin Max.set_eq_fold del: set_simps)

lemma py_fmax_Fin: "py_fmax (map Fin (x # xs)) = Inr (Fin (Max (set (x # xs))))"
  by (simp add: py_fmax_def fold_fmax_Fin Max.set_eq_fold del: set_simps)

lemma np_max_fin:
  assumes "xs \<noteq> []" "list_all is_fin xs"
  shows "np_max xs = Inr (Fin (Max (the_fin ` set xs)))"
proof -
  obtain y ys where ys: "map the_fin xs = y # ys" using assms(1) by (cases xs) auto
  have "np_max (map Fin (y # ys)) = Inr (Fin (Max (set (y # ys))))" by (rule np_max_Fin)
  then show ?thesis using map_Fin_the_fin[OF assms(2)] by (simp only: ys[symmetric] set_map)
qed

lemma Max_Max_UN:
  fixes S :: "'a \<Rightarrow> real set"
  assumes "finite A" "A \<noteq> {}" "\<And>a. a \<in> A \<Longrightarrow> finite (S a) \<and> S a \<noteq> {}"
  shows "Max ((\<lambda>a. Max (S a)) ` A) = Max (\<Union>a \<in> A. S a)"
proof (rule Max_eqI)
  show "finite ((\<lambda>a. Max (S a)) ` A)" using assms(1) by simp
  have fin: "finite (\<Union>a \<in> A. S a)" using assms by simp
  have ne: "(\<Union>a \<in> A. S a) \<noteq> {}" using assms by auto
  show "y \<le> Max (\<Union>a \<in> A. S a)" if "y \<in> (\<lambda>a. Max (S a)) ` A" for y
  proof -
    from that obtain a where a: "a \<in> A" "y = Max (S a)" by auto
    then have "y \<in> S a" using assms(3) Max_in by blast
    then have "y \<in> (\<Union>a \<in> A. S a)" using a(1) by blast
    then show ?thesis using fin by (rule Max_ge[rotated])
  qed
  from Max_in[OF fin ne] obtain a where a: "a \<in> A" "Max (\<Union>a \<in> A. S a) \<in> S a" by auto
  then have "Max (\<Union>a \<in> A. S a) \<le> Max (S a)" using assms(3) by (intro Max_ge) auto
  moreover have "Max (S a) \<le> Max (\<Union>a \<in> A. S a)"
  proof -
    have "Max (S a) \<in> S a" using a(1) assms(3) Max_in by blast
    then have "Max (S a) \<in> (\<Union>a \<in> A. S a)" using a(1) by blast
    then show ?thesis using fin by (rule Max_ge[rotated])
  qed
  ultimately have "Max (\<Union>a \<in> A. S a) = Max (S a)" by simp
  then show "Max (\<Union>a \<in> A. S a) \<in> (\<lambda>a. Max (S a)) ` A" using a(1) by (rule image_eqI)
qed

lemma np_min_Fin: "np_min (map Fin (x # xs)) = Inr (Fin (Min (set (x # xs))))"
  using NaN_notin_Fin[of "x # xs"]
  by (simp add: np_min_def fold_fmin_Fin Min.set_eq_fold del: set_simps)

lemma py_fmin_Fin: "py_fmin (map Fin (x # xs)) = Inr (Fin (Min (set (x # xs))))"
  by (simp add: py_fmin_def fold_fmin_Fin Min.set_eq_fold del: set_simps)

lemma np_min_fin:
  assumes "xs \<noteq> []" "list_all is_fin xs"
  shows "np_min xs = Inr (Fin (Min (the_fin ` set xs)))"
proof -
  obtain y ys where ys: "map the_fin xs = y # ys" using assms(1) by (cases xs) auto
  have "np_min (map Fin (y # ys)) = Inr (Fin (Min (set (y # ys))))" by (rule np_min_Fin)
  then show ?thesis using map_Fin_the_fin[OF assms(2)] by (simp only: ys[symmetric] set_map)
qed

lemma Min_Min_UN:
  fixes S :: "'a \<Rightarrow> real set"
  assumes "finite A" "A \<noteq> {}" "\<And>a. a \<in> A \<Longrightarrow> finite (S a) \<and> S a \<noteq> {}"
  shows "Min ((\<lambda>a. Min (S a)) ` A) = Min (\<Union>a \<in> A. S a)"
proof (rule Min_eqI)
  show "finite ((\<lambda>a. Min (S a)) ` A)" using assms(1) by simp
  have fin: "finite (\<Union>a \<in> A. S a)" using assms by simp
  have ne: "(\<Union>a \<in> A. S a) \<noteq> {}" using assms by auto
  show "Min (\<Union>a \<in> A. S a) \<le> y" if "y \<in> (\<lambda>a. Min (S a)) ` A" for y
  proof -
    from that obtain a where a: "a \<in> A" "y = Min (S a)" by auto
    then have "y \<in> S a" using assms(3) Min_in by blast
    then have "y \<in> (\<Union>a \<in> A. S a)" using a(1) by blast
    then show ?thesis using fin by (rule Min_le[rotated])
  qed
  from Min_in[OF fin ne] obtain a where a: "a \<in> A" "Min (\<Union>a \<in> A. S a) \<in> S a" by auto
  then have "Min (S a) \<le> Min (\<Union>a \<in> A. S a)" using assms(3) by (intro Min_le) auto
  moreover have "Min (\<Union>a \<in> A. S a) \<le> Min (S a)"
  proof -
    have "Min (S a) \<in> S a" using a(1) assms(3) Min_in by blast
    then have "Min (S a) \<in> (\<Union>a \<in> A. S a)" using a(1) by blast
    then show ?thesis using fin by (rule Min_le[rotated])
  qed
  ultimately have "Min (\<Union>a \<in> A. S a) = Min (S a)" by simp
  then show "Min (\<Union>a \<in> A. S a) \<in> (\<lambda>a. Min (S a)) ` A" using a(1) by (rule image_eqI)
qed

text \<open>
  The maxima of several non-empty finite arrays, combined by the builtin \<^verbatim>\<open>max\<close>, are the
  maximum of all their elements; the same for the minima.
\<close>

lemma all_maxima:
  assumes "A \<noteq> []" and h: "\<forall>a \<in> set A. f a \<noteq> [] \<and> list_all is_fin (f a)"
  shows "\<exists>ms. mapM (\<lambda>a. np_max (f a)) A = Inr ms
            \<and> py_fmax ms = Inr (Fin (Max (the_fin ` (\<Union>a \<in> set A. set (f a)))))"
proof -
  let ?S = "\<lambda>a. the_fin ` set (f a)"
  have m: "np_max (f a) = Inr (Fin (Max (?S a)))" if "a \<in> set A" for a
    using h that by (intro np_max_fin) blast+
  have 1: "mapM (\<lambda>a. np_max (f a)) A = Inr (map (\<lambda>a. Fin (Max (?S a))) A)"
    by (rule mapM_Inr) (rule m)
  obtain y ys where ys: "map (\<lambda>a. Max (?S a)) A = y # ys" using assms(1) by (cases A) auto
  have "map (\<lambda>a. Fin (Max (?S a))) A = map Fin (map (\<lambda>a. Max (?S a)) A)" by simp
  moreover have "py_fmax (map Fin (y # ys)) = Inr (Fin (Max (set (y # ys))))"
    by (rule py_fmax_Fin)
  ultimately have 2: "py_fmax (map (\<lambda>a. Fin (Max (?S a))) A) = Inr (Fin (Max ((\<lambda>a. Max (?S a)) ` set A)))"
    by (simp only: ys[symmetric] set_map)
  have ne: "finite (?S a) \<and> ?S a \<noteq> {}" if "a \<in> set A" for a using h that by auto
  have "Max ((\<lambda>a. Max (?S a)) ` set A) = Max (\<Union>a \<in> set A. ?S a)"
    by (rule Max_Max_UN) (use assms(1) ne in simp_all)
  then have 3: "Max ((\<lambda>a. Max (?S a)) ` set A) = Max (the_fin ` (\<Union>a \<in> set A. set (f a)))"
    by (simp only: image_UN)
  show ?thesis using 1 2 unfolding 3 by blast
qed

lemma all_minima:
  assumes "A \<noteq> []" and h: "\<forall>a \<in> set A. f a \<noteq> [] \<and> list_all is_fin (f a)"
  shows "\<exists>ms. mapM (\<lambda>a. np_min (f a)) A = Inr ms
            \<and> py_fmin ms = Inr (Fin (Min (the_fin ` (\<Union>a \<in> set A. set (f a)))))"
proof -
  let ?S = "\<lambda>a. the_fin ` set (f a)"
  have m: "np_min (f a) = Inr (Fin (Min (?S a)))" if "a \<in> set A" for a
    using h that by (intro np_min_fin) blast+
  have 1: "mapM (\<lambda>a. np_min (f a)) A = Inr (map (\<lambda>a. Fin (Min (?S a))) A)"
    by (rule mapM_Inr) (rule m)
  obtain y ys where ys: "map (\<lambda>a. Min (?S a)) A = y # ys" using assms(1) by (cases A) auto
  have "map (\<lambda>a. Fin (Min (?S a))) A = map Fin (map (\<lambda>a. Min (?S a)) A)" by simp
  moreover have "py_fmin (map Fin (y # ys)) = Inr (Fin (Min (set (y # ys))))"
    by (rule py_fmin_Fin)
  ultimately have 2: "py_fmin (map (\<lambda>a. Fin (Min (?S a))) A) = Inr (Fin (Min ((\<lambda>a. Min (?S a)) ` set A)))"
    by (simp only: ys[symmetric] set_map)
  have ne: "finite (?S a) \<and> ?S a \<noteq> {}" if "a \<in> set A" for a using h that by auto
  have "Min ((\<lambda>a. Min (?S a)) ` set A) = Min (\<Union>a \<in> set A. ?S a)"
    by (rule Min_Min_UN) (use assms(1) ne in simp_all)
  then have 3: "Min ((\<lambda>a. Min (?S a)) ` set A) = Min (the_fin ` (\<Union>a \<in> set A. set (f a)))"
    by (simp only: image_UN)
  show ?thesis using 1 2 unfolding 3 by blast
qed

text \<open>
  C1 (as amended).  With \<open>k\<close> for \<^verbatim>\<open>output_dim\<close>: the standardize variant is built from
  the mean and the standard deviation of \<^verbatim>\<open>x_train[..., :k]\<close> only; the identity variant
  holds no statistic; the two min-max variants are built from the maximum and the minimum
  over all elements of \<^verbatim>\<open>x_train[..., :k]\<close> and \<^verbatim>\<open>y_train[..., :k]\<close>; and for every variant
  but the linear-max one the scaler is the same for any two sets of arrays that agree on
  \<^verbatim>\<open>x_train\<close> and \<^verbatim>\<open>y_train\<close>, so no statistic depends on the validation or test
  partitions.  The linear-max variant takes its maximum over all elements of the first
  \<open>k\<close> channels of all six arrays.  (The maxima and minima are stated for slices that
  are non-empty and finite.)
\<close>

theorem get_scalar_statistics:
  "get_scalar ''standard'' k p =
     Inr (StandardScaler (np_mean (flat (channels k (x_train p)))) (np_std (flat (channels k (x_train p)))))
   \<and> get_scalar ''none'' k p = Inr NoneScaler
   \<and> (st \<noteq> ''normal'' \<longrightarrow> x_train p = x_train q \<longrightarrow> y_train p = y_train q \<longrightarrow>
        get_scalar st k p = get_scalar st k q)
   \<and> ((\<forall>a \<in> set [x_train p, y_train p].
          flat (channels k a) \<noteq> [] \<and> list_all is_fin (flat (channels k a))) \<longrightarrow>
        get_scalar ''minmax01'' k p =
          Inr (MinMax01Scaler
                (Fin (Max (the_fin ` (\<Union>a \<in> set [x_train p, y_train p]. set (flat (channels k a))))))
                (Fin (Min (the_fin ` (\<Union>a \<in> set [x_train p, y_train p]. set (flat (channels k a)))))))
        \<and> get_scalar ''minmax11'' k p =
          Inr (MinMax11Scaler
                (Fin (Max (the_fin ` (\<Union>a \<in> set [x_train p, y_train p]. set (flat (channels k a))))))
                (Fin (Min (the_fin ` (\<Union>a \<in> set [x_train p, y_train p]. set (flat (channels k a))))))))
   \<and> ((\<forall>a \<in> set [x_train p, y_train p, x_val p, y_val p, x_test p, y_test p].
          flat (channels k a) \<noteq> [] \<and> list_all is_fin (flat (channels k a))) \<longrightarrow>
        get_scalar ''normal'' k p =
          Inr (NormalScaler (Fin (Max (the_fin `
            (\<Union>a \<in> set [x_train p, y_train p, x_val p, y_val p, x_test p, y_test p].
               set (flat (channels k a))))))))"
proof (intro conjI impI)
  show "get_scalar ''standard'' k p =
     Inr (StandardScaler (np_mean (flat (channels k (x_train p)))) (np_std (flat (channels k (x_train p)))))"
    by (simp add: get_scalar_def)
next
  show "get_scalar ''none'' k p = Inr NoneScaler"
    by (simp add: get_scalar_def)
next
  assume st: "st \<noteq> ''normal''" and eq: "x_train p = x_train q" "y_train p = y_train q"
  show "get_scalar st k p = get_scalar st k q"
    unfolding get_scalar_def by (simp only: st eq if_False)
next
  let ?A = "[x_train p, y_train p]"
  assume h: "\<forall>a \<in> set ?A. flat (channels k a) \<noteq> [] \<and> list_all is_fin (flat (channels k a))"
  have ne: "?A \<noteq> []" by simp
  from all_maxima[of ?A "\<lambda>a. flat (channels k a)", OF ne h]
  obtain maxs where mx: "mapM (\<lambda>a. np_max (flat (channels k a))) ?A = Inr maxs"
    "py_fmax maxs = Inr (Fin (Max (the_fin ` (\<Union>a \<in> set ?A. set (flat (channels k a))))))"
    by blast
  from all_minima[of ?A "\<lambda>a. flat (channels k a)", OF ne h]
  obtain mins where mn: "mapM (\<lambda>a. np_min (flat (channels k a))) ?A = Inr mins"
    "py_fmin mins = Inr (Fin (Min (the_fin ` (\<Union>a \<in> set ?A. set (flat (channels k a))))))"
    by blast
  have s: "''minmax01'' \<noteq> ''normal''" "''minmax01'' \<noteq> ''standard''"
    "''minmax11'' \<noteq> ''normal''" "''minmax11'' \<noteq> ''standard''" "''minmax11'' \<noteq> ''minmax01''"
    by simp_all
  show "get_scalar ''minmax01'' k p =
          Inr (MinMax01Scaler
                (Fin (Max (the_fin ` (\<Union>a \<in> set ?A. set (flat (channels k a))))))
                (Fin (Min (the_fin ` (\<Union>a \<in> set ?A. set (flat (channels k a)))))))"
    unfolding get_scalar_def by (simp only: s mx mn if_False if_True simp_thms sum.case)
  show "get_scalar ''minmax11'' k p =
          Inr (MinMax11Scaler
                (Fin (Max (the_fin ` (\<Union>a \<in> set ?A. set (flat (channels k a))))))
                (Fin (Min (the_fin ` (\<Union>a \<in> set ?A. set (flat (channels k a)))))))"
    unfolding get_scalar_def by (simp only: s mx mn if_False if_True simp_thms sum.case)
next
  let ?A = "[x_train p, y_train p, x_val p, y_val p, x_test p, y_test p]"
  assume h: "\<forall>a \<in> set ?A. flat (channels k a) \<noteq> [] \<and> list_all is_fin (flat (channels k a))"
  have "?A \<noteq> []" by simp
  from all_maxima[of ?A "\<lambda>a. flat (channels k a)", OF this h]
  obtain ms where ms: "mapM (\<lambda>a. np_max (flat (channels k a))) ?A = Inr ms"
    "py_fmax ms = Inr (Fin (Max (the_fin ` (\<Union>a \<in> set ?A. set (flat (channels k a))))))"
    by blast
  show "get_scalar ''normal'' k p = Inr (NormalScaler (Fin (Max (the_fin ` (\<Union>a \<in> set ?A. set (flat (channels k a)))))))"
    unfolding get_scalar_def by (simp only: ms simp_thms if_True sum.case)
qed

lemma ex_slices:
  "flat (channels 1 (x_train example_partitions)) = [Fin 1]"
  "flat (channels 1 (y_train example_partitions)) = [Fin 2]"
  "flat (channels 1 (x_val example_partitions)) = [Fin 3]"
  "flat (channels 1 (y_val example_partitions)) = [Fin 4]"
  "flat (channels 1 (x_test example_partitions)) = [Fin 5]"
  "flat (channels 1 (y_test example_partitions)) = [Fin 6]"
  by (simp_all add: example_partitions_def flat_def channels_def py_slice_def slice_index_def)

lemma ex_slices_test50:
  "flat (channels 1 (x_train example_partitions_test50)) = [Fin 1]"
  "flat (channels 1 (y_train example_partitions_test50)) = [Fin 2]"
  "flat (channels 1 (x_val example_partitions_test50)) = [Fin 3]"
  "flat (channels 1 (y_val example_partitions_test50)) = [Fin 4]"
  "flat (channels 1 (x_test example_partitions_test50)) = [Fin 50]"
  "flat (channels 1 (y_test example_partitions_test50)) = [Fin 6]"
  by (simp_all add: example_partitions_test50_def example_partitions_def flat_def channels_def
      py_slice_def slice_index_def)

text \<open>
  The theorem on the example arrays with \<open>output_dim = 1\<close>: the channel holding 9 is
  ignored, the training input gives mean 1 and deviation 0, the training arrays give the
  maximum 2 and the minimum 1 whatever the test input is, and the largest first channel of
  all six arrays is the 6 of the test target.
\<close>

theorem get_scalar_statistics_witness:
  "get_scalar ''standard'' 1 example_partitions = Inr (StandardScaler (Fin 1) (Fin 0))
   \<and> get_scalar ''none'' 1 example_partitions = Inr NoneScaler
   \<and> get_scalar ''minmax01'' 1 example_partitions = get_scalar ''minmax01'' 1 example_partitions_test50
   \<and> get_scalar ''minmax01'' 1 example_partitions = Inr (MinMax01Scaler (Fin 2) (Fin 1))
   \<and> get_scalar ''minmax11'' 1 example_partitions = Inr (MinMax11Scaler (Fin 2) (Fin 1))
   \<and> get_scalar ''normal'' 1 example_partitions = Inr (NormalScaler (Fin 6))"
proof -
  note inst = get_scalar_statistics[of 1 example_partitions "''minmax01''" example_partitions_test50]
  have s: "np_mean [Fin 1] = Fin 1" "np_std [Fin 1] = Fin 0"
    by (simp_all add: np_mean_def np_std_def np_sum_def fsub_def)
  have 1: "get_scalar ''standard'' 1 example_partitions = Inr (StandardScaler (Fin 1) (Fin 0))"
    using inst by (simp only: ex_slices s)
  have 0: "get_scalar ''none'' 1 example_partitions = Inr NoneScaler"
    using inst by blast
  have eq: "x_train example_partitions = x_train example_partitions_test50"
    "y_train example_partitions = y_train example_partitions_test50"
    by (simp_all add: example_partitions_test50_def)
  have ne: "''minmax01'' \<noteq> ''normal''" by simp
  have 2: "get_scalar ''minmax01'' 1 example_partitions = get_scalar ''minmax01'' 1 example_partitions_test50"
    using inst ne eq by blast
  have h2: "\<forall>a \<in> set [x_train example_partitions, y_train example_partitions].
          flat (channels 1 a) \<noteq> [] \<and> list_all is_fin (flat (channels 1 a))"
    by (simp add: ex_slices)
  have m2: "Max (the_fin ` (\<Union>a \<in> set [x_train example_partitions, y_train example_partitions].
               set (flat (channels 1 a)))) = 2"
    "Min (the_fin ` (\<Union>a \<in> set [x_train example_partitions, y_train example_partitions].
               set (flat (channels 1 a)))) = 1"
    by (simp_all add: ex_slices)
  have 4: "get_scalar ''minmax01'' 1 example_partitions = Inr (MinMax01Scaler (Fin 2) (Fin 1))"
    and 5: "get_scalar ''minmax11'' 1 example_partitions = Inr (MinMax11Scaler (Fin 2) (Fin 1))"
    using inst h2 unfolding m2 by blast+
  have h: "\<forall>a \<in> set [x_train example_partitions, y_train example_partitions, x_val example_partitions,
                       y_val example_partitions, x_test example_partitions, y_test example_partitions].
          flat (channels 1 a) \<noteq> [] \<and> list_all is_fin (flat (channels 1 a))"
    by (simp add: ex_slices)
  have m: "Max (the_fin ` (\<Union>a \<in> set [x_train example_partitions, y_train example_partitions, x_val example_partitions,
                       y_val example_partitions, x_test example_partitions, y_test example_partitions].
               set (flat (channels 1 a)))) = 6"
    by (simp add: ex_slices)
  have 3: "get_scalar ''normal'' 1 example_partitions = Inr (NormalScaler (Fin 6))"
    using inst h unfolding m by blast
  show ?thesis using 0 1 2 3 4 5 by (simp only: simp_thms)
qed

text \<open>
  Two sets of arrays that differ in the test input only get different linear-max
  scalers: that statistic depends on the test partition.
\<close>

theorem get_scalar_normal_counterexample:
  "x_train example_partitions_test50 = x_train example_partitions
   \<and> y_train example_partitions_test50 = y_train example_partitions
   \<and> x_val example_partitions_test50 = x_val example_partitions
   \<and> y_val example_partitions_test50 = y_val example_partitions
   \<and> get_scalar ''normal'' 1 example_partitions = Inr (NormalScaler (Fin 6))
   \<and> get_scalar ''normal'' 1 example_partitions_test50 = Inr (NormalScaler (Fin 50))"
proof -
  have "get_scalar ''normal'' 1 example_partitions = Inr (NormalScaler (Fin 6))"
    unfolding get_scalar_def by (simp add: ex_slices np_max_def py_fmax_def)
  moreover have "get_scalar ''normal'' 1 example_partitions_test50 = Inr (NormalScaler (Fin 50))"
    unfolding get_scalar_def by (simp add: ex_slices_test50 np_max_def py_fmax_def)
  ultimately show ?thesis by (simp add: example_partitions_test50_def)
qed

section \<open>Round trip of the scaler\<close>

lemma normal_rt: "mx \<noteq> 0 \<Longrightarrow> fmul (fdiv v (Fin mx)) (Fin mx) = v"
  by (cases v) (auto simp: signed_inf_def)

lemma shift_rt: "fadd (fsub v (Fin m)) (Fin m) = v"
  by (cases v) (auto simp: fsub_def)

lemma fsub_Fin: "fsub (Fin a) (Fin b) = Fin (a - b)"
  by (simp add: fsub_def)

lemma double_rt: "fdiv (fmul w (Fin 2)) (Fin 2) = w"
  by (cases w) (auto simp: signed_inf_def)

text \<open>
  C7 (as amended).  For every scaler variant whose statistics are non-degenerate, and for
  every input value (the infinities and NaN included),
  \<open>inverse_transform (transform v) = v\<close>.
\<close>

theorem scaler_round_trip:
  assumes "nondegenerate s"
  shows "inverse_transform s (transform s v) = v"
proof (cases s)
  case (NormalScaler mx)
  with assms obtain a where "mx = Fin a" "a \<noteq> 0" by (cases mx) auto
  then show ?thesis by (simp add: NormalScaler normal_rt)
next
  case (StandardScaler mean std)
  with assms obtain m d where "mean = Fin m" "std = Fin d" "d \<noteq> 0"
    by (cases mean; cases std) auto
  then show ?thesis by (simp add: StandardScaler normal_rt shift_rt)
next
  case (MinMax01Scaler mx mn)
  with assms obtain a b where "mx = Fin a" "mn = Fin b" "a \<noteq> b"
    by (cases mx; cases mn) auto
  then show ?thesis by (simp add: MinMax01Scaler fsub_Fin normal_rt shift_rt)
next
  case (MinMax11Scaler mx mn)
  with assms obtain a b where "mx = Fin a" "mn = Fin b" "a \<noteq> b"
    by (cases mx; cases mn) auto
  then show ?thesis by (simp add: MinMax11Scaler fsub_Fin double_rt normal_rt shift_rt)
next
  case NoneScaler
  then show ?thesis by simp
qed

text \<open>Standardizing 7 with mean 3 and deviation 2, and rescaling 2 from \<open>1 .. 5\<close> to \<open>-1 .. 1\<close>.\<close>

theorem scaler_round_trip_witness:
  "inverse_transform (StandardScaler (Fin 3) (Fin 2)) (transform (StandardScaler (Fin 3) (Fin 2)) (Fin 7)) = Fin 7
   \<and> transform (StandardScaler (Fin 3) (Fin 2)) (Fin 7) = Fin 2
   \<and> inverse_transform (MinMax11Scaler (Fin 5) (Fin 1)) (transform (MinMax11Scaler (Fin 5) (Fin 1)) (Fin 2)) = Fin 2
   \<and> transform (MinMax11Scaler (Fin 5) (Fin 1)) (Fin 2) = Fin (- 1 / 2)"
  using scaler_round_trip[of "StandardScaler (Fin 3) (Fin 2)" "Fin 7"]
    scaler_round_trip[of "MinMax11Scaler (Fin 5) (Fin 1)" "Fin 2"]
  by (simp add: fsub_def)

text \<open>
  A constant training input is fitted to a standard deviation of 0; the transform then
  divides by zero, and the inverse transform does not return the value.
\<close>

theorem scaler_round_trip_counterexample:
  "get_scalar ''standard'' 1 example_partitions = Inr (StandardScaler (Fin 1) (Fin 0))
   \<and> transform (StandardScaler (Fin 1) (Fin 0)) (Fin 2) = PInf
   \<and> inverse_transform (StandardScaler (Fin 1) (Fin 0)) (transform (StandardScaler (Fin 1) (Fin 0)) (Fin 2)) = NaN"
  by (simp add: get_scalar_def ex_slices np_mean_def np_std_def np_sum_def fsub_def signed_inf_def)

section \<open>Properties of the embedding scorer\<close>

lemma mul_sum_dot: "length u = length v \<Longrightarrow> mul_sum u v = dot u v"
proof -
  assume l: "length u = length v"
  have "sum_list (map2 (*) u v) = (\<Sum>d < length (map2 (*) u v). map2 (*) u v ! d)"
    by (simp add: sum_list_sum_nth atLeast0LessThan)
  also have "\<dots> = (\<Sum>d < length u. u ! d * v ! d)" using l by simp
  finally show ?thesis by (simp add: mul_sum_def dot_def)
qed

lemma embedding_valid:
  assumes "\<forall>i \<in> set idx. 0 \<le> i \<and> i < int (length weight)"
  shows "embedding weight idx = Inr (map (\<lambda>i. weight ! nat i) idx)"
  unfolding embedding_def using assms by (intro mapM_Inr) auto

lemma broadcast2_same: "length xs = length ys \<Longrightarrow> broadcast2 f xs ys = Inr (map2 f xs ys)"
  by (simp add: broadcast2_def)

lemma map2_map_map: "map2 f (map g xs) (map h xs) = map (\<lambda>x. f (g x) (h x)) xs"
  by (induction xs) auto

lemma sum_list_neg: "sum_list (map (\<lambda>x. - f x) xs) = - sum_list (map f xs)" for f :: "'a \<Rightarrow> real"
  by (induction xs) auto

lemma fneg_tensor_mean: "fneg (tensor_mean (map f xs)) = tensor_mean (map (\<lambda>x. - f x) xs)"
  by (cases "xs = []") (simp_all add: tensor_mean_def sum_list_neg)

text \<open>
  C8.  For every batch of triples \<open>(i, j, label)\<close> with indices inside the tables (of rows
  of one dimension), the first-order scorer returns \<open>dot (node_emb[i]) (node_emb[j])\<close>, the
  second-order scorer \<open>dot (node_emb[i]) (context_emb[j])\<close>, and the loss is the mean over
  the batch of \<open>- ln (sigmoid (score * label))\<close> (NaN on an empty batch, as the mean of an
  empty tensor is).
\<close>

theorem line_scores_and_loss:
  fixes batch :: "(int \<times> int \<times> real) list"
  assumes "\<forall>(i, j, label) \<in> set batch. 0 \<le> i \<and> i < int (length node_emb) \<and> 0 \<le> j \<and> j < int (length node_emb)
             \<and> j < int (length context_emb)"
    and "\<forall>row \<in> set node_emb \<union> set context_emb. length row = embedding_size"
  defines "I \<equiv> map fst batch" and "J \<equiv> map (fst \<circ> snd) batch" and "Neg \<equiv> map (snd \<circ> snd) batch"
  shows "forward (LINE_FIRST node_emb) I J
           = Inr (map (\<lambda>(i, j, label). dot (node_emb ! nat i) (node_emb ! nat j)) batch)
       \<and> forward (LINE_SECOND node_emb context_emb) I J
           = Inr (map (\<lambda>(i, j, label). dot (node_emb ! nat i) (context_emb ! nat j)) batch)
       \<and> calculate_loss (LINE_FIRST node_emb) I J Neg
           = Inr (tensor_mean (map (\<lambda>(i, j, label).
                    - ln (sigmoid (dot (node_emb ! nat i) (node_emb ! nat j) * label))) batch))
       \<and> calculate_loss (LINE_SECOND node_emb context_emb) I J Neg
           = Inr (tensor_mean (map (\<lambda>(i, j, label).
                    - ln (sigmoid (dot (node_emb ! nat i) (context_emb ! nat j) * label))) batch))"
proof -
  have eI: "embedding node_emb I = Inr (map (\<lambda>t. node_emb ! nat (fst t)) batch)"
    using assms(1) unfolding I_def by (subst embedding_valid) (auto simp: comp_def)
  have eJ: "embedding node_emb J = Inr (map (\<lambda>t. node_emb ! nat (fst (snd t))) batch)"
    using assms(1) unfolding J_def by (subst embedding_valid) (auto simp: comp_def)
  have cJ: "embedding context_emb J = Inr (map (\<lambda>t. context_emb ! nat (fst (snd t))) batch)"
    using assms(1) unfolding J_def by (subst embedding_valid) (auto simp: comp_def)
  have d1: "mul_sum (node_emb ! nat (fst t)) (node_emb ! nat (fst (snd t)))
              = dot (node_emb ! nat (fst t)) (node_emb ! nat (fst (snd t)))" if "t \<in> set batch" for t
    using assms(1,2) that by (intro mul_sum_dot) (auto simp: split_def)
  have d2: "mul_sum (node_emb ! nat (fst t)) (context_emb ! nat (fst (snd t)))
              = dot (node_emb ! nat (fst t)) (context_emb ! nat (fst (snd t)))" if "t \<in> set batch" for t
    using assms(1,2) that by (intro mul_sum_dot) (auto simp: split_def)
  have z1: "map2 mul_sum (map (\<lambda>t. node_emb ! nat (fst t)) batch) (map (\<lambda>t. node_emb ! nat (fst (snd t))) batch)
              = map (\<lambda>(i, j, label). dot (node_emb ! nat i) (node_emb ! nat j)) batch"
  proof -
    have "map2 mul_sum (map (\<lambda>t. node_emb ! nat (fst t)) batch) (map (\<lambda>t. node_emb ! nat (fst (snd t))) batch)
            = map (\<lambda>t. mul_sum (node_emb ! nat (fst t)) (node_emb ! nat (fst (snd t)))) batch"
      by (rule map2_map_map)
    also have "\<dots> = map (\<lambda>t. dot (node_emb ! nat (fst t)) (node_emb ! nat (fst (snd t)))) batch"
      by (rule map_cong) (simp_all add: d1)
    finally show ?thesis by (simp add: split_def)
  qed
  have z2: "map2 mul_sum (map (\<lambda>t. node_emb ! nat (fst t)) batch) (map (\<lambda>t. context_emb ! nat (fst (snd t))) batch)
              = map (\<lambda>(i, j, label). dot (node_emb ! nat i) (context_emb ! nat j)) batch"
  proof -
    have "map2 mul_sum (map (\<lambda>t. node_emb ! nat (fst t)) batch) (map (\<lambda>t. context_emb ! nat (fst (snd t))) batch)
            = map (\<lambda>t. mul_sum (node_emb ! nat (fst t)) (context_emb ! nat (fst (snd t)))) batch"
      by (rule map2_map_map)
    also have "\<dots> = map (\<lambda>t. dot (node_emb ! nat (fst t)) (context_emb ! nat (fst (snd t)))) batch"
      by (rule map_cong) (simp_all add: d2)
    finally show ?thesis by (simp add: split_def)
  qed
  have f1: "forward (LINE_FIRST node_emb) I J
           = Inr (map (\<lambda>(i, j, label). dot (node_emb ! nat i) (node_emb ! nat j)) batch)"
    by (simp add: forward_first_def eI eJ broadcast2_same z1)
  have f2: "forward (LINE_SECOND node_emb context_emb) I J
           = Inr (map (\<lambda>(i, j, label). dot (node_emb ! nat i) (context_emb ! nat j)) batch)"
    by (simp add: forward_second_def eI cJ broadcast2_same z2)
  have n: "map2 (*) (map f batch) Neg = map (\<lambda>t. f t * snd (snd t)) batch" for f :: "int \<times> int \<times> real \<Rightarrow> real"
    unfolding Neg_def comp_def by (rule map2_map_map)
  have len: "length (map f batch) = length Neg" for f :: "int \<times> int \<times> real \<Rightarrow> real"
    by (simp add: Neg_def)
  have loss: "(case broadcast2 (*) (map f batch) Neg of
                 Inl e \<Rightarrow> Inl e
               | Inr scaled \<Rightarrow> Inr (fneg (tensor_mean (map logsigmoid scaled))))
              = Inr (tensor_mean (map (\<lambda>t. - ln (sigmoid (f t * snd (snd t)))) batch))"
    for f :: "int \<times> int \<times> real \<Rightarrow> real"
  proof -
    have "broadcast2 (*) (map f batch) Neg = Inr (map (\<lambda>t. f t * snd (snd t)) batch)"
      by (simp only: broadcast2_same[OF len] n)
    moreover have "fneg (tensor_mean (map logsigmoid (map (\<lambda>t. f t * snd (snd t)) batch)))
                     = tensor_mean (map (\<lambda>t. - ln (sigmoid (f t * snd (snd t)))) batch)"
      by (simp add: fneg_tensor_mean[symmetric] logsigmoid_def comp_def)
    ultimately show ?thesis by simp
  qed
  have l1: "calculate_loss (LINE_FIRST node_emb) I J Neg
           = Inr (tensor_mean (map (\<lambda>(i, j, label).
                    - ln (sigmoid (dot (node_emb ! nat i) (node_emb ! nat j) * label))) batch))"
    unfolding calculate_loss_def f1 sum.case loss by (simp add: split_def)
  have l2: "calculate_loss (LINE_SECOND node_emb context_emb) I J Neg
           = Inr (tensor_mean (map (\<lambda>(i, j, label).
                    - ln (sigmoid (dot (node_emb ! nat i) (context_emb ! nat j) * label))) batch))"
    unfolding calculate_loss_def f2 sum.case loss by (simp add: split_def)
  show ?thesis using f1 f2 l1 l2 by (simp only: simp_thms)
qed


text \<open>Two nodes with the vectors \<open>(1, 2)\<close> and \<open>(3, 4)\<close>, one true edge and one sampled non-edge.\<close>

theorem line_scores_and_loss_witness:
  "forward (LINE_FIRST [[1, 2], [3, 4]]) [0, 1] [1, 0] = Inr [11, 11]
   \<and> forward (LINE_SECOND [[1, 2], [3, 4]] [[1, 0], [0, 1]]) [0, 1] [1, 0] = Inr [2, 3]
   \<and> calculate_loss (LINE_FIRST [[1, 2], [3, 4]]) [0, 1] [1, 0] [1, - 1]
       = Inr (Fin ((- ln (sigmoid 11) + - ln (sigmoid (- 11))) / 2))
   \<and> calculate_loss (LINE_SECOND [[1, 2], [3, 4]] [[1, 0], [0, 1]]) [0, 1] [1, 0] [1, - 1]
       = Inr (Fin ((- ln (sigmoid 2) + - ln (sigmoid (- 3))) / 2))"
  using line_scores_and_loss[of "[(0, 1, 1), (1, 0, - 1)]" "[[1, 2], [3, 4]]" "[[1, 0], [0, 1]]" 2]
  by (simp add: dot_def tensor_mean_def lessThan_Suc numeral_2_eq_2)

section \<open>Skipped rows and refused selectors\<close>

lemma dom_fold_upd:
  "dom (fold (\<lambda>(index, id) m. m(id \<mapsto> index)) ps m0) = dom m0 \<union> snd ` set ps"
  by (induction ps arbitrary: m0) (auto simp: split_def)

lemma dom_geo_to_ind: "dom (geo_to_ind ids) = set ids"
proof -
  have "snd ` set (enumerate 0 ids) = set ids"
    using map_snd_enumerate[of 0 ids] by (metis set_map)
  then show ?thesis by (simp add: geo_to_ind_def dom_fold_upd)
qed

lemma rel_row_unknown:
  "origin_id \<notin> set ids \<or> destination_id \<notin> set ids \<Longrightarrow>
     rel_row (geo_to_ind ids) (origin_id, destination_id, w) adj_mx = adj_mx"
proof -
  assume "origin_id \<notin> set ids \<or> destination_id \<notin> set ids"
  then have "geo_to_ind ids origin_id = None \<or> geo_to_ind ids destination_id = None"
    using dom_geo_to_ind[of ids] by (metis domIff)
  then show ?thesis by (auto simp: rel_row_def split: option.splits)
qed

lemma fold_rel_row_filter:
  "fold (rel_row (geo_to_ind ids)) distance_rows adj_mx =
   fold (rel_row (geo_to_ind ids))
     (filter (\<lambda>(origin_id, destination_id, w). origin_id \<in> set ids \<and> destination_id \<in> set ids) distance_rows)
     adj_mx"
proof (induction distance_rows arbitrary: adj_mx)
  case Nil
  then show ?case by simp
next
  case (Cons row rows)
  obtain a b w where row: "row = (a, b, w)" by (cases row)
  show ?case
  proof (cases "a \<in> set ids \<and> b \<in> set ids")
    case True
    then show ?thesis using Cons.IH by (simp add: row)
  next
    case False
    then have "rel_row (geo_to_ind ids) (a, b, w) adj_mx = adj_mx"
      by (intro rel_row_unknown) auto
    with False show ?thesis using Cons.IH by (simp add: row)
  qed
qed

text \<open>
  C9.  The loop of \<^verbatim>\<open>_load_rel\<close> gives the same matrix as on the rows whose two
  identifiers are known: a row with an unknown origin or destination is skipped without
  an exception, and when every row is such the matrix stays at the sentinel.  A
  \<^verbatim>\<open>scaler_type\<close> outside the five names makes \<^verbatim>\<open>_get_scalar\<close> raise \<^verbatim>\<open>ValueError\<close>, and an
  \<^verbatim>\<open>order\<close> outside \<^verbatim>\<open>first\<close> and \<^verbatim>\<open>second\<close> makes \<^verbatim>\<open>LINE.__init__\<close> raise \<^verbatim>\<open>ValueError\<close>.
\<close>

theorem unknown_rows_skipped_and_invalid_selectors_raise:
  "fold (rel_row (geo_to_ind ids)) distance_rows adj_mx =
     fold (rel_row (geo_to_ind ids))
       (filter (\<lambda>(origin_id, destination_id, w). origin_id \<in> set ids \<and> destination_id \<in> set ids)
          distance_rows) adj_mx
   \<and> ((\<forall>(origin_id, destination_id, w) \<in> set distance_rows.
          origin_id \<notin> set ids \<or> destination_id \<notin> set ids) \<longrightarrow>
        load_rel False eps ids distance_rows
          = replicate (length ids) (replicate (length ids) PInf))
   \<and> (st \<notin> {''normal'', ''standard'', ''minmax01'', ''minmax11'', ''none''} \<longrightarrow>
        get_scalar st k p = Inl ValueError)
   \<and> (sel \<notin> {''first'', ''second''} \<longrightarrow> line_init sel node_emb context_emb = Inl ValueError)"
proof (intro conjI impI)
  show "fold (rel_row (geo_to_ind ids)) distance_rows adj_mx =
     fold (rel_row (geo_to_ind ids))
       (filter (\<lambda>(origin_id, destination_id, w). origin_id \<in> set ids \<and> destination_id \<in> set ids)
          distance_rows) adj_mx"
    by (rule fold_rel_row_filter)
next
  assume "\<forall>(origin_id, destination_id, w) \<in> set distance_rows.
          origin_id \<notin> set ids \<or> destination_id \<notin> set ids"
  then have "filter (\<lambda>(origin_id, destination_id, w). origin_id \<in> set ids \<and> destination_id \<in> set ids)
               distance_rows = []"
    by (auto simp: filter_empty_conv)
  then show "load_rel False eps ids distance_rows
          = replicate (length ids) (replicate (length ids) PInf)"
    unfolding load_rel_def Let_def by (subst fold_rel_row_filter) simp
next
  assume "st \<notin> {''normal'', ''standard'', ''minmax01'', ''minmax11'', ''none''}"
  then show "get_scalar st k p = Inl ValueError" by (simp add: get_scalar_def)
next
  assume "sel \<notin> {''first'', ''second''}"
  then show "line_init sel node_emb context_emb = Inl ValueError" by (simp add: line_init_def)
qed

text \<open>
  Entities 7 and 8: the rows to the unknown 9 and from the unknown 3 leave the matrix
  untouched; the names \<^verbatim>\<open>zscore\<close> and \<^verbatim>\<open>third\<close> are refused.
\<close>

theorem unknown_rows_skipped_and_invalid_selectors_raise_witness:
  "load_rel False (1 / 10) [7, 8 :: int] [(7, 8, Fin 5), (7, 9, Fin 2), (3, 8, Fin 1)]
     = [[PInf, Fin 5], [PInf, PInf]]
   \<and> load_rel False (1 / 10) [7, 8 :: int] [(7, 9, Fin 2), (3, 8, Fin 1)] = [[PInf, PInf], [PInf, PInf]]
   \<and> get_scalar ''zscore'' 1 example_partitions = Inl ValueError
   \<and> line_init ''third'' [[1, 2], [3, 4]] [[1, 0], [0, 1]] = Inl ValueError"
proof -
  let ?ids = "[7, 8 :: int]"
  let ?adj = "replicate (length ?ids) (replicate (length ?ids) PInf)"
  note a = unknown_rows_skipped_and_invalid_selectors_raise
    [where ids = ?ids and distance_rows = "[(7, 8, Fin 5), (7, 9, Fin 2), (3, 8, Fin 1)]"
       and adj_mx = ?adj and st = "''zscore''" and k = 1 and p = example_partitions
       and sel = "''third''" and node_emb = "[[1, 2], [3, 4]]" and context_emb = "[[1, 0], [0, 1]]"]
  note b = unknown_rows_skipped_and_invalid_selectors_raise
    [where ids = ?ids and distance_rows = "[(7, 9, Fin 2), (3, 8, Fin 1)]" and eps = "1 / 10"]
  note a1 = a[THEN conjunct1]
  note a3 = a[THEN conjunct2, THEN conjunct2, THEN conjunct1]
  note a4 = a[THEN conjunct2, THEN conjunct2, THEN conjunct2]
  note b2 = b[THEN conjunct2, THEN conjunct1]
  have g: "geo_to_ind ?ids = [7 \<mapsto> 0, 8 \<mapsto> 1]"
    by (simp add: geo_to_ind_def enumerate_eq_zip upt_rec)
  have f: "filter (\<lambda>(origin_id, destination_id, w). origin_id \<in> set ?ids \<and> destination_id \<in> set ?ids)
             [(7, 8, Fin 5), (7, 9, Fin 2), (3, 8, Fin 1)] = [(7, 8, Fin 5)]"
    by simp
  have "fold (rel_row (geo_to_ind ?ids)) [(7, 8, Fin 5), (7, 9, Fin 2), (3, 8, Fin 1)] ?adj
          = fold (rel_row (geo_to_ind ?ids)) [(7, 8, Fin 5)] ?adj"
    using a1 unfolding f .
  also have "\<dots> = [[PInf, Fin 5], [PInf, PInf]]"
    by (simp add: g rel_row_def numeral_2_eq_2)
  finally have 1: "load_rel False (1 / 10) ?ids [(7, 8, Fin 5), (7, 9, Fin 2), (3, 8, Fin 1)]
     = [[PInf, Fin 5], [PInf, PInf]]"
    unfolding load_rel_def Let_def by (simp only: if_False)
  have "\<forall>(origin_id, destination_id, w) \<in> set [(7, 9, Fin 2), (3, 8, Fin 1)].
          origin_id \<notin> set ?ids \<or> destination_id \<notin> set ?ids"
    by simp
  with b2 have "load_rel False (1 / 10) ?ids [(7, 9, Fin 2), (3, 8, Fin 1)] = ?adj"
    by (rule mp)
  then have 2: "load_rel False (1 / 10) ?ids [(7, 9, Fin 2), (3, 8, Fin 1)] = [[PInf, PInf], [PInf, PInf]]"
    by (simp add: numeral_2_eq_2)
  have "''zscore'' \<notin> {''normal'', ''standard'', ''minmax01'', ''minmax11'', ''none''}" by simp
  with a3 have 3: "get_scalar ''zscore'' 1 example_partitions = Inl ValueError"
    by (rule mp)
  have "''third'' \<notin> {''first'', ''second''}" by simp
  with a4 have 4: "line_init ''third'' [[1, 2], [3, 4]] [[1, 0], [0, 1]] = Inl ValueError"
    by (rule mp)
  show ?thesis using 1 2 3 4 by (simp only: simp_thms)
qed

section \<open>Properties of the adjacency weighting\<close>












section \<open>Effect of loading on the object\<close>


lemma insert_time_entity: "list_insert 1 ''entity_id'' (list_insert 0 ''time'' xs) = ''time'' # ''entity_id'' # xs"
  by (simp add: list_insert_def)

lemma load_dyna_heap: "snd (snd (load_dyna parse dynafile self h)) = snd (dyna_columns dynafile (data_col self) h)"
  by (simp add: load_dyna_def split: prod.splits sum.splits)

lemma load_dyna_self:
  "(fst (snd (load_dyna parse dynafile self h)))\<lparr>timesolts := timesolts self\<rparr> = self"
  by (simp add: load_dyna_def split: prod.splits sum.splits)

lemma dyna_columns_list:
  "dyna_columns dynafile (PyList r) h
     = (df_select dynafile (''time'' # ''entity_id'' # h r), h(r := ''time'' # ''entity_id'' # h r))"
  by (simp add: dyna_columns_def list_insert_def Let_def)

lemma dyna_columns_str: "snd (dyna_columns dynafile (PyStr s) h) = h"
  by (simp add: dyna_columns_def Let_def)

text \<open>
  C10.  Write \<open>self1\<close>, \<open>h1\<close> for the object and the store after one call of
  \<^verbatim>\<open>_load_dyna\<close> (whether it returns or raises) and \<open>self2\<close>, \<open>h2\<close> for them after a second
  call.  When \<^verbatim>\<open>data_col\<close> is the list object \<open>r\<close>, the first call puts \<^verbatim>\<open>time\<close> and
  \<^verbatim>\<open>entity_id\<close> at the front of that object in the store, \<^verbatim>\<open>self.data_col\<close> is still that
  object, and the second call selects the columns of the lengthened list and lengthens it
  again.  When \<^verbatim>\<open>data_col\<close> is a string the store is unchanged.  In every case all the
  attributes of the object but \<^verbatim>\<open>timesolts\<close> are unchanged.
\<close>

theorem load_dyna_mutates_data_col_list:
  fixes parse :: "string \<Rightarrow> datetime64 option" and dynafile :: frame and h :: heap
    and self :: traffic_speed_dataset
  defines "self1 \<equiv> fst (snd (load_dyna parse dynafile self h))"
  defines "h1 \<equiv> snd (snd (load_dyna parse dynafile self h))"
  defines "self2 \<equiv> fst (snd (load_dyna parse dynafile self1 h1))"
  defines "h2 \<equiv> snd (snd (load_dyna parse dynafile self1 h1))"
  shows "(data_col self = PyList r \<longrightarrow>
            h1 = h(r := ''time'' # ''entity_id'' # h r)
          \<and> data_col self1 = PyList r
          \<and> dyna_columns dynafile (data_col self1) h1
              = (df_select dynafile (''time'' # ''entity_id'' # ''time'' # ''entity_id'' # h r),
                 h(r := ''time'' # ''entity_id'' # ''time'' # ''entity_id'' # h r))
          \<and> h2 = h(r := ''time'' # ''entity_id'' # ''time'' # ''entity_id'' # h r))
       \<and> (data_col self = PyStr s \<longrightarrow> h1 = h)
       \<and> self1\<lparr>timesolts := timesolts self\<rparr> = self
       \<and> self2\<lparr>timesolts := timesolts self\<rparr> = self"
proof (intro conjI impI)
  show f1: "self1\<lparr>timesolts := timesolts self\<rparr> = self"
    unfolding self1_def by (rule load_dyna_self)
  have "self2\<lparr>timesolts := timesolts self1\<rparr> = self1"
    unfolding self2_def by (rule load_dyna_self)
  then have "(self2\<lparr>timesolts := timesolts self1\<rparr>)\<lparr>timesolts := timesolts self\<rparr>
               = self1\<lparr>timesolts := timesolts self\<rparr>"
    by simp
  then show "self2\<lparr>timesolts := timesolts self\<rparr> = self" using f1 by simp
  show "h1 = h" if "data_col self = PyStr s"
    unfolding h1_def load_dyna_heap that by (rule dyna_columns_str)
next
  assume l: "data_col self = PyList r"
  show a: "h1 = h(r := ''time'' # ''entity_id'' # h r)"
    unfolding h1_def load_dyna_heap l by (simp add: dyna_columns_list)
  have "data_col (self1\<lparr>timesolts := timesolts self\<rparr>) = data_col self"
    unfolding self1_def by (simp only: load_dyna_self)
  then show b: "data_col self1 = PyList r" using l by simp
  show c: "dyna_columns dynafile (data_col self1) h1
              = (df_select dynafile (''time'' # ''entity_id'' # ''time'' # ''entity_id'' # h r),
                 h(r := ''time'' # ''entity_id'' # ''time'' # ''entity_id'' # h r))"
    unfolding b a by (simp add: dyna_columns_list)
  show "h2 = h(r := ''time'' # ''entity_id'' # ''time'' # ''entity_id'' # h r)"
    unfolding h2_def load_dyna_heap c by simp
qed


text \<open>
  On the example table with \<^verbatim>\<open>data_col = ['flow']\<close>: the first call returns the tensor of
  the flow column and leaves the list as \<^verbatim>\<open>['time', 'entity_id', 'flow']\<close>; the second call
  lengthens it again and raises, since the selection now has two columns named
  \<^verbatim>\<open>time\<close>.
\<close>

theorem load_dyna_mutates_data_col_list_witness:
  "snd (snd (load_dyna example_parse example_dyna example_dataset_list example_heap_flow)) 0
     = [''time'', ''entity_id'', ''flow'']
   \<and> fst (load_dyna example_parse example_dyna example_dataset_list example_heap_flow)
     = Inr [[[Fin 10], [Fin 50]], [[Fin 20], [Fin 60]], [[Fin 30], [Fin 70]], [[Fin 40], [Fin 80]]]
   \<and> snd (snd (load_dyna example_parse example_dyna
          (fst (snd (load_dyna example_parse example_dyna example_dataset_list example_heap_flow)))
          (snd (snd (load_dyna example_parse example_dyna example_dataset_list example_heap_flow))))) 0
     = [''time'', ''entity_id'', ''time'', ''entity_id'', ''flow'']
   \<and> fst (load_dyna example_parse example_dyna
          (fst (snd (load_dyna example_parse example_dyna example_dataset_list example_heap_flow)))
          (snd (snd (load_dyna example_parse example_dyna example_dataset_list example_heap_flow))))
     = Inl ValueError
   \<and> data_col (fst (snd (load_dyna example_parse example_dyna example_dataset_list example_heap_flow)))
     = PyList 0"
proof -
  have l: "data_col example_dataset_list = PyList 0"
    by (simp add: example_dataset_list_def)
  have f: "example_heap_flow 0 = [''flow'']" by (simp add: example_heap_flow_def)
  note a = load_dyna_mutates_data_col_list
    [where self = example_dataset_list and r = 0 and h = example_heap_flow
       and parse = example_parse and dynafile = example_dyna, THEN conjunct1, THEN mp, OF l]
  have 1: "snd (snd (load_dyna example_parse example_dyna example_dataset_list example_heap_flow)) 0
     = [''time'', ''entity_id'', ''flow'']"
    using a[THEN conjunct1] by (simp add: f)
  have 3: "snd (snd (load_dyna example_parse example_dyna
          (fst (snd (load_dyna example_parse example_dyna example_dataset_list example_heap_flow)))
          (snd (snd (load_dyna example_parse example_dyna example_dataset_list example_heap_flow))))) 0
     = [''time'', ''entity_id'', ''time'', ''entity_id'', ''flow'']"
    using a[THEN conjunct2, THEN conjunct2, THEN conjunct2] by (simp add: f)
  have 5: "data_col (fst (snd (load_dyna example_parse example_dyna example_dataset_list example_heap_flow)))
     = PyList 0"
    using a[THEN conjunct2, THEN conjunct1] .
  have 2: "fst (load_dyna example_parse example_dyna example_dataset_list example_heap_flow)
     = Inr [[[Fin 10], [Fin 50]], [[Fin 20], [Fin 60]], [[Fin 30], [Fin 70]], [[Fin 40], [Fin 80]]]"
    by code_simp
  have 4: "fst (load_dyna example_parse example_dyna
          (fst (snd (load_dyna example_parse example_dyna example_dataset_list example_heap_flow)))
          (snd (snd (load_dyna example_parse example_dyna example_dataset_list example_heap_flow))))
     = Inl ValueError"
    by code_simp
  show ?thesis using 1 2 3 4 5 by (simp only: simp_thms)
qed

section \<open>Cache fingerprint and stale reads\<close>

text \<open>The file name of the cache does not depend on \<^verbatim>\<open>data_col\<close> or \<^verbatim>\<open>output_dim\<close>.\<close>

lemma cache_file_name_ignores_data_col:
  "cache_file_name sf (self\<lparr>data_col := d\<rparr>) = cache_file_name sf self"
  "cache_file_name sf (self\<lparr>output_dim := k\<rparr>) = cache_file_name sf self"
  by (simp_all add: cache_file_name_def parameters_str_def)

lemma cache_hit:
  "cache_dataset self \<Longrightarrow> fs (cache_file_name sf self) = Some p \<Longrightarrow>
     get_data_arrays sf parse dynafile self h fs = (Inr p, self, h, fs)"
  by (simp add: get_data_arrays_def)

text \<open>
  C3 (the code at the failing input).  Two objects that differ only in \<^verbatim>\<open>data_col\<close>
  (\<^verbatim>\<open>speed\<close> and \<^verbatim>\<open>flow\<close>) have the same cache file name.  After \<^verbatim>\<open>get_data\<close> has run
  for \<^verbatim>\<open>speed\<close> on an empty cache, \<^verbatim>\<open>get_data\<close> for \<^verbatim>\<open>flow\<close> loads the arrays of the speed
  column, although on an empty cache it generates those of the flow column.
\<close>

theorem stale_cache_read_after_data_col_change:
  "cache_file_name example_str_float example_dataset_flow
     = cache_file_name example_str_float example_dataset_speed
   \<and> fst (get_data_arrays example_str_float example_parse example_dyna example_dataset_speed example_heap Map.empty)
     = Inr \<lparr>x_train = [[[[Fin 1], [Fin 5]]], [[[Fin 2], [Fin 6]]]],
            y_train = [[[[Fin 2], [Fin 6]]], [[[Fin 3], [Fin 7]]]],
            x_val = [], y_val = [],
            x_test = [[[[Fin 3], [Fin 7]]]], y_test = [[[[Fin 4], [Fin 8]]]]\<rparr>
   \<and> fst (get_data_arrays example_str_float example_parse example_dyna example_dataset_flow example_heap
          (snd (snd (snd (get_data_arrays example_str_float example_parse example_dyna
                            example_dataset_speed example_heap Map.empty)))))
     = Inr \<lparr>x_train = [[[[Fin 1], [Fin 5]]], [[[Fin 2], [Fin 6]]]],
            y_train = [[[[Fin 2], [Fin 6]]], [[[Fin 3], [Fin 7]]]],
            x_val = [], y_val = [],
            x_test = [[[[Fin 3], [Fin 7]]]], y_test = [[[[Fin 4], [Fin 8]]]]\<rparr>
   \<and> fst (get_data_arrays example_str_float example_parse example_dyna example_dataset_flow example_heap Map.empty)
     = Inr \<lparr>x_train = [[[[Fin 10], [Fin 50]]], [[[Fin 20], [Fin 60]]]],
            y_train = [[[[Fin 20], [Fin 60]]], [[[Fin 30], [Fin 70]]]],
            x_val = [], y_val = [],
            x_test = [[[[Fin 30], [Fin 70]]]], y_test = [[[[Fin 40], [Fin 80]]]]\<rparr>"
  by code_simp

end
